theory Spec2Isabelle
  imports Complex_Main "HOL-Library.Char_ord" "HOL-Library.List_Lexorder"
begin

section \<open>Values, objects and the object store\<close>

text \<open>
  The library under verification (\<^verbatim>\<open>metalgpy/_expression.py\<close>) builds a graph of
  \<^verbatim>\<open>Expression\<close> objects that are shared by reference and mutated in place. The model keeps
  an explicit store: an object is its class together with its \<^verbatim>\<open>__dict__\<close> (an association
  list in insertion order), and the runtime identity \<^verbatim>\<open>id(x)\<close> of an object is its address in
  the store.

  Values of the host language are modelled as far as the library inspects them: \<^verbatim>\<open>None\<close>,
  \<^verbatim>\<open>NotImplemented\<close>, booleans, integers, finite floats (by their exact rational value; only
  comparisons are taken on them), strings, lists, dictionaries with string keys, references
  to \<^verbatim>\<open>Expression\<close> objects, external objects and attributes read off a value
  (\<^verbatim>\<open>obj.__init__\<close>, \<^verbatim>\<open>obj.__call__\<close>). Lists and dictionaries are values without an
  identity of their own.
\<close>

type_synonym addr = nat

datatype extkind = ExtClass | ExtFunction | ExtBuiltin | ExtMethod | ExtInstance | ExtCallable

datatype val =
    VNone
  | VNotImplemented
  | VBool bool
  | VInt int
  | VFloat rat
  | VStr string
  | VList "val list"
  | VDict "(string \<times> val) list"
  | VRef addr
  | VExt extkind string
  | VAttr val string

datatype cls =
    BinaryExpression
  | UnaryExpression
  | FunctionCallExpression
  | ExpressionItemAccess
  | ExpressionAttributeAccess
  | ExpressionCallExpression
  | ObjectExpression
  | List_cls
  | Int_cls
  | Float_cls

record pyobj =
  klass :: cls
  dict :: "(string \<times> val) list"

text \<open>\<^verbatim>\<open>VarExpression.var_id\<close>, the class attribute counting constructed variables, is
  part of the store.\<close>

record store =
  objs :: "pyobj list"
  var_counter :: nat

datatype error =
    KeyError val
  | ValueError addr val val val
  | ValueErrorIndex val
  | IndexError
  | TypeError
  | AttributeError string
  | AssertionError
  | RecursionError
  | NotModelled

definition empty_store :: store where
  "empty_store = \<lparr>objs = [], var_counter = 0\<rparr>"

definition alloc :: "store \<Rightarrow> pyobj \<Rightarrow> store \<times> addr" where
  "alloc s ob = (s\<lparr>objs := objs s @ [ob]\<rparr>, length (objs s))"

definition deref :: "store \<Rightarrow> addr \<Rightarrow> pyobj option" where
  "deref s a = (if a < length (objs s) then Some (objs s ! a) else None)"

definition is_VarExpression_cls :: "cls \<Rightarrow> bool" where
  "is_VarExpression_cls c = (c = List_cls \<or> c = Int_cls \<or> c = Float_cls)"

text \<open>\<^verbatim>\<open>isinstance(v, Expression)\<close> and \<^verbatim>\<open>isinstance(v, VarExpression)\<close>.\<close>

definition isinstance_Expression :: "store \<Rightarrow> val \<Rightarrow> bool" where
  "isinstance_Expression s v = (case v of VRef a \<Rightarrow> a < length (objs s) | _ \<Rightarrow> False)"

definition isinstance_VarExpression :: "store \<Rightarrow> val \<Rightarrow> bool" where
  "isinstance_VarExpression s v =
     (case v of VRef a \<Rightarrow> (case deref s a of Some ob \<Rightarrow> is_VarExpression_cls (klass ob) | None \<Rightarrow> False)
      | _ \<Rightarrow> False)"

text \<open>Reading an attribute that the instance \<^verbatim>\<open>__dict__\<close> holds; \<^verbatim>\<open>value\<close> falls back to the
  class attribute \<^verbatim>\<open>VarExpression.value = None\<close>.\<close>

definition getfield :: "pyobj \<Rightarrow> string \<Rightarrow> val" where
  "getfield ob k = (case map_of (dict ob) k of Some v \<Rightarrow> v | None \<Rightarrow> VNone)"

fun set_entry :: "string \<Rightarrow> val \<Rightarrow> (string \<times> val) list \<Rightarrow> (string \<times> val) list" where
  "set_entry k v [] = [(k, v)]"
| "set_entry k v ((k', v') # kvs) =
     (if k = k' then (k, v) # kvs else (k', v') # set_entry k v kvs)"

definition setattr :: "store \<Rightarrow> addr \<Rightarrow> string \<Rightarrow> val \<Rightarrow> store" where
  "setattr s a k v =
     (case deref s a of
        Some ob \<Rightarrow> s\<lparr>objs := (objs s)[a := ob\<lparr>dict := set_entry k v (dict ob)\<rparr>]\<rparr>
      | None \<Rightarrow> s)"

text \<open>Truth value testing of the host language (objects without \<^verbatim>\<open>__bool__\<close> are true).\<close>

fun truthy :: "val \<Rightarrow> bool" where
  "truthy VNone = False"
| "truthy (VBool b) = b"
| "truthy (VInt i) = (i \<noteq> 0)"
| "truthy (VFloat r) = (r \<noteq> 0)"
| "truthy (VStr s) = (s \<noteq> [])"
| "truthy (VList xs) = (xs \<noteq> [])"
| "truthy (VDict kvs) = (kvs \<noteq> [])"
| "truthy _ = True"

subsection \<open>Decimal rendering of the identity counter\<close>

definition digit_char :: "nat \<Rightarrow> char" where
  "digit_char d = char_of (48 + d)"

function str_nat :: "nat \<Rightarrow> string" where
  "str_nat n = (if n < 10 then [digit_char n] else str_nat (n div 10) @ [digit_char (n mod 10)])"
  by pat_completeness auto
termination
  by (relation "measure id") auto

declare str_nat.simps [simp del]

definition str_int :: "int \<Rightarrow> string" where
  "str_int i = (if i < 0 then CHR ''-'' # str_nat (nat (- i)) else str_nat (nat i))"

text \<open>The property \<^verbatim>\<open>VarExpression.id\<close>: the explicit name when it is truthy, else the decimal
  string of \<^verbatim>\<open>var_id\<close> (an integer, written only by \<^verbatim>\<open>__init__\<close>).\<close>

definition id_of :: "pyobj \<Rightarrow> val" where
  "id_of ob =
     (if truthy (getfield ob ''_name'') then getfield ob ''_name''
      else (case getfield ob ''var_id'' of VInt n \<Rightarrow> VStr (str_int n) | v \<Rightarrow> v))"

subsection \<open>Constructors\<close>

definition new_BinaryExpression :: "store \<Rightarrow> val \<Rightarrow> val \<Rightarrow> string \<Rightarrow> store \<times> addr" where
  "new_BinaryExpression s left right operator =
     alloc s \<lparr>klass = BinaryExpression,
              dict = [(''left'', left), (''right'', right), (''operator'', VStr operator)]\<rparr>"

definition new_ObjectExpression :: "store \<Rightarrow> val \<Rightarrow> store \<times> addr" where
  "new_ObjectExpression s ob = alloc s \<lparr>klass = ObjectExpression, dict = [(''_obj'', ob)]\<rparr>"

definition new_ExpressionAttributeAccess :: "store \<Rightarrow> val \<Rightarrow> string \<Rightarrow> store \<times> addr" where
  "new_ExpressionAttributeAccess s expression name =
     alloc s \<lparr>klass = ExpressionAttributeAccess,
              dict = [(''expression'', expression), (''name'', VStr name)]\<rparr>"

text \<open>
  \<^verbatim>\<open>FunctionCallExpression(function_parent, function, *args, **kwargs)\<close>. The constructor
  binds \<^verbatim>\<open>self\<close>, \<^verbatim>\<open>function_parent\<close> and \<^verbatim>\<open>function\<close> by position, so a keyword argument of
  one of these names is a \<^verbatim>\<open>TypeError\<close> (multiple values for the argument) and no object is
  built.
\<close>

definition keyword_clash :: "string list \<Rightarrow> (string \<times> val) list \<Rightarrow> bool" where
  "keyword_clash names kwargs = list_ex (\<lambda>(k, v). k \<in> set names) kwargs"

definition new_FunctionCallExpression ::
  "store \<Rightarrow> val \<Rightarrow> val \<Rightarrow> val list \<Rightarrow> (string \<times> val) list \<Rightarrow> store \<times> (error + addr)" where
  "new_FunctionCallExpression s function_parent function args kwargs =
     (if keyword_clash [''self'', ''function_parent'', ''function''] kwargs then (s, Inl TypeError)
      else
        (case alloc s \<lparr>klass = FunctionCallExpression,
                dict = [(''function_parent'', function_parent), (''function'', function),
                        (''args'', VList args), (''kwargs'', VDict kwargs)]\<rparr> of
           (s', n) \<Rightarrow> (s', Inr n)))"

text \<open>\<^verbatim>\<open>VarExpression.__init__\<close>: the fields \<^verbatim>\<open>_name\<close> and \<^verbatim>\<open>var_id\<close>, and the counter bumped.\<close>

definition VarExpression_fields :: "store \<Rightarrow> string option \<Rightarrow> (string \<times> val) list" where
  "VarExpression_fields s name =
     [(''_name'', (case name of None \<Rightarrow> VNone | Some n \<Rightarrow> VStr n)),
      (''var_id'', VInt (int (var_counter s)))]"

definition new_Int :: "store \<Rightarrow> val \<Rightarrow> val \<Rightarrow> string option \<Rightarrow> store \<times> addr" where
  "new_Int s low high name =
     alloc (s\<lparr>var_counter := Suc (var_counter s)\<rparr>)
       \<lparr>klass = Int_cls,
        dict = VarExpression_fields s name @
               [(''_low'', low), (''_high'', high), (''_dist'', VExt ExtInstance ''scipy.stats.randint'')]\<rparr>"

definition new_Float :: "store \<Rightarrow> val \<Rightarrow> val \<Rightarrow> string option \<Rightarrow> store \<times> addr" where
  "new_Float s low high name =
     alloc (s\<lparr>var_counter := Suc (var_counter s)\<rparr>)
       \<lparr>klass = Float_cls,
        dict = VarExpression_fields s name @
               [(''_low'', low), (''_high'', high), (''_dist'', VExt ExtInstance ''scipy.stats.uniform'')]\<rparr>"

definition new_List ::
  "store \<Rightarrow> val list \<Rightarrow> val \<Rightarrow> bool \<Rightarrow> bool \<Rightarrow> string option \<Rightarrow> store \<times> addr" where
  "new_List s values k replace invariant name =
     alloc (s\<lparr>var_counter := Suc (var_counter s)\<rparr>)
       \<lparr>klass = List_cls,
        dict = VarExpression_fields s name @
               [(''_values'', VList values), (''_k'', k), (''_replace'', VBool replace),
                (''_invariant'', VBool invariant)]\<rparr>"

section \<open>Traversal of nested structures\<close>

text \<open>
  The library walks \<^verbatim>\<open>self.__dict__\<close> with \<^verbatim>\<open>tree.map_structure\<close>, which flattens lists and
  dictionaries recursively (a dictionary in the sorted order of its keys), applies the
  function to the leaves in that order, and packs the results back into the shape of the
  input (a dictionary keeps its own key order).
\<close>

definition sorted_items :: "(string \<times> val) list \<Rightarrow> (string \<times> val) list" where
  "sorted_items kvs = sort_key fst kvs"

lemma set_sorted_items [simp]: "set (sorted_items kvs) = set kvs"
  by (simp add: sorted_items_def)

lemma size_snd_sorted_items [termination_simp]:
  "(k, v) \<in> set (sorted_items kvs) \<Longrightarrow> size v < Suc (size_list (size_prod (\<lambda>_. 0) size) kvs)"
  by (induction kvs) auto

fun flatten :: "val \<Rightarrow> val list" where
  "flatten (VList xs) = concat (map flatten xs)"
| "flatten (VDict kvs) = concat (map (\<lambda>(k, v). flatten v) (sorted_items kvs))"
| "flatten v = [v]"

fun is_nested :: "val \<Rightarrow> bool" where
  "is_nested (VList xs) = True"
| "is_nested (VDict kvs) = True"
| "is_nested v = False"

lemma size_list_insort_key:
  "size_list f (insort_key g x xs) = Suc (f x + size_list f xs)"
  by (induction xs) auto

lemma size_list_sort_key: "size_list f (sort_key g xs) = size_list f xs"
  by (induction xs) (auto simp: size_list_insort_key)

lemma size_list_map_snd_sorted [termination_simp]:
  "size_list size (map snd (sorted_items kvs)) \<le> size_list (size_prod (\<lambda>_. 0) size) kvs"
proof -
  have "size_list size (map snd xs) \<le> size_list (size_prod (\<lambda>_. 0) size) xs" for xs :: "(string \<times> val) list"
    by (induction xs) auto
  from this [of "sorted_items kvs"] show ?thesis
    by (simp add: sorted_items_def size_list_sort_key)
qed

function (sequential) unflatten_as :: "val \<Rightarrow> val list \<Rightarrow> val \<times> val list"
  and unflatten_list :: "val list \<Rightarrow> val list \<Rightarrow> val list \<times> val list" where
  "unflatten_as (VList xs) flat =
     (case unflatten_list xs flat of (ys, rest) \<Rightarrow> (VList ys, rest))"
| "unflatten_as (VDict kvs) flat =
     (case unflatten_list (map snd (sorted_items kvs)) flat of
        (ys, rest) \<Rightarrow>
          (VDict (map (\<lambda>(k, v). (k, case map_of (zip (map fst (sorted_items kvs)) ys) k of
                                        Some y \<Rightarrow> y | None \<Rightarrow> v)) kvs), rest))"
| "unflatten_as v flat = (case flat of [] \<Rightarrow> (v, []) | y # rest \<Rightarrow> (y, rest))"
| "unflatten_list [] flat = ([], flat)"
| "unflatten_list (x # xs) flat =
     (case unflatten_as x flat of
        (y, rest) \<Rightarrow> (case unflatten_list xs rest of (ys, rest') \<Rightarrow> (y # ys, rest')))"
  by pat_completeness auto
termination
proof (relation "measure (\<lambda>x. case x of Inl (v, flat) \<Rightarrow> size v | Inr (vs, flat) \<Rightarrow> size_list size vs)")
  show "wf (measure (\<lambda>x. case x of Inl (v, flat) \<Rightarrow> size v | Inr (vs, flat) \<Rightarrow> size_list size vs))"
    by simp
next
  fix kvs :: "(string \<times> val) list" and flat :: "val list"
  show "(Inr (map snd (sorted_items kvs), flat), Inl (VDict kvs, flat))
          \<in> measure (\<lambda>x. case x of Inl (v, flat) \<Rightarrow> size v | Inr (vs, flat) \<Rightarrow> size_list size vs)"
    using size_list_map_snd_sorted [of kvs] by simp
qed auto


section \<open>Ordering comparison of the host language\<close>

text \<open>
  \<^verbatim>\<open>a < b\<close>, \<^verbatim>\<open>a <= b\<close>, \<^verbatim>\<open>a > b\<close>, \<^verbatim>\<open>a >= b\<close>. An \<^verbatim>\<open>Expression\<close> on the left answers with
  its own operator method, a new \<^verbatim>\<open>BinaryExpression\<close>; a plain value on the left of an
  \<^verbatim>\<open>Expression\<close> is handed to the reflected method of the right operand. Numbers (booleans
  included) compare by their exact value, strings lexicographically; \<^verbatim>\<open>None\<close>,
  dictionaries and mixed operands raise \<^verbatim>\<open>TypeError\<close>. Ordering two lists or two external
  objects is outside the model.
\<close>

fun num_of :: "val \<Rightarrow> rat option" where
  "num_of (VBool b) = Some (if b then 1 else 0)"
| "num_of (VInt i) = Some (of_int i)"
| "num_of (VFloat r) = Some r"
| "num_of _ = None"

datatype cmpop = Lt | Le | Gt | Ge

fun cmp_symbol :: "cmpop \<Rightarrow> string" where
  "cmp_symbol Lt = ''<''"
| "cmp_symbol Le = ''<=''"
| "cmp_symbol Gt = ''>''"
| "cmp_symbol Ge = ''>=''"

fun cmp_reflected :: "cmpop \<Rightarrow> cmpop" where
  "cmp_reflected Lt = Gt"
| "cmp_reflected Le = Ge"
| "cmp_reflected Gt = Lt"
| "cmp_reflected Ge = Le"

fun cmp_holds :: "cmpop \<Rightarrow> 'a::linorder \<Rightarrow> 'a \<Rightarrow> bool" where
  "cmp_holds Lt x y = (x < y)"
| "cmp_holds Le x y = (x \<le> y)"
| "cmp_holds Gt x y = (x > y)"
| "cmp_holds Ge x y = (x \<ge> y)"

definition py_compare :: "cmpop \<Rightarrow> store \<Rightarrow> val \<Rightarrow> val \<Rightarrow> store \<times> (error + val)" where
  "py_compare op s a b =
     (if isinstance_Expression s a then
        (case new_BinaryExpression s a b (cmp_symbol op) of (s', n) \<Rightarrow> (s', Inr (VRef n)))
      else if isinstance_Expression s b then
        (case new_BinaryExpression s b a (cmp_symbol (cmp_reflected op)) of
           (s', n) \<Rightarrow> (s', Inr (VRef n)))
      else
        (case (num_of a, num_of b) of
           (Some x, Some y) \<Rightarrow> (s, Inr (VBool (cmp_holds op x y)))
         | _ \<Rightarrow>
           (case (a, b) of
              (VStr x, VStr y) \<Rightarrow> (s, Inr (VBool (cmp_holds op x y)))
            | (VList x, VList y) \<Rightarrow> (s, Inl NotModelled)
            | (VExt k x, _) \<Rightarrow> (s, Inl NotModelled)
            | (_, VExt k y) \<Rightarrow> (s, Inl NotModelled)
            | (VAttr v x, _) \<Rightarrow> (s, Inl NotModelled)
            | (_, VAttr v y) \<Rightarrow> (s, Inl NotModelled)
            | _ \<Rightarrow> (s, Inl TypeError))))"

definition py_gt :: "store \<Rightarrow> val \<Rightarrow> val \<Rightarrow> store \<times> (error + val)" where
  "py_gt = py_compare Gt"

section \<open>Equality\<close>

text \<open>
  \<^verbatim>\<open>Expression.__getattribute__\<close>: an attribute held by the instance, else the class
  attribute \<^verbatim>\<open>value = None\<close> of a variable, else a new \<^verbatim>\<open>ExpressionAttributeAccess\<close>.
\<close>

definition getattribute :: "store \<Rightarrow> addr \<Rightarrow> string \<Rightarrow> store \<times> val" where
  "getattribute s a name =
     (case deref s a of
        None \<Rightarrow> (s, VNone)
      | Some ob \<Rightarrow>
        (case map_of (dict ob) name of
           Some v \<Rightarrow> (s, v)
         | None \<Rightarrow>
             if name = ''value'' \<and> is_VarExpression_cls (klass ob) then (s, VNone)
             else (case new_ExpressionAttributeAccess s (VRef a) name of (s', n) \<Rightarrow> (s', VRef n))))"

type_synonym 'a result = "store \<times> (error + 'a)"

text \<open>\<^verbatim>\<open>x and y\<close>: the value of \<open>x\<close> when it is false, else the value of \<open>y\<close>.\<close>

definition and_then :: "val result \<Rightarrow> (store \<Rightarrow> val result) \<Rightarrow> val result" where
  "and_then r f =
     (case r of (s, Inl e) \<Rightarrow> (s, Inl e) | (s, Inr b) \<Rightarrow> if truthy b then f s else (s, Inr b))"

text \<open>
  \<^verbatim>\<open>a == b\<close>. An \<^verbatim>\<open>Expression\<close> on the left answers with its \<^verbatim>\<open>__eq__\<close>; a plain value on
  the left of an \<^verbatim>\<open>Expression\<close> returns \<^verbatim>\<open>NotImplemented\<close> from its own \<^verbatim>\<open>__eq__\<close>, so the
  right operand's \<^verbatim>\<open>__eq__\<close> is asked. The \<^verbatim>\<open>__eq__\<close> of an \<^verbatim>\<open>Expression\<close> that is not a
  variable builds a \<^verbatim>\<open>BinaryExpression\<close>; those of the variables are
  \<^verbatim>\<open>VarExpression.__eq__\<close>, \<^verbatim>\<open>List.__eq__\<close>, \<^verbatim>\<open>Int.__eq__\<close> and \<^verbatim>\<open>Float.__eq__\<close>. Plain
  values are equal when they are the same number or the same value; lists and dictionaries
  compare their members, taking identical members as equal. The comparison of members
  and of fields is the parameter \<open>eq\<close>: \<open>py_eq\<close> iterates the step, and its first argument
  bounds the depth of the recursion as the interpreter's recursion limit does.
\<close>

fun py_eq_list ::
  "(store \<Rightarrow> val \<Rightarrow> val \<Rightarrow> val result) \<Rightarrow> store \<Rightarrow> val list \<Rightarrow> val list \<Rightarrow> val result" where
  "py_eq_list eq s [] ys = (s, Inr (VBool True))"
| "py_eq_list eq s (x # xs) [] = (s, Inr (VBool False))"
| "py_eq_list eq s (x # xs) (y # ys) =
     (if x = y then py_eq_list eq s xs ys
      else
        (case eq s x y of
           (s1, Inl e) \<Rightarrow> (s1, Inl e)
         | (s1, Inr r) \<Rightarrow> if truthy r then py_eq_list eq s1 xs ys else (s1, Inr (VBool False))))"

definition VarExpression_eq ::
  "(store \<Rightarrow> val \<Rightarrow> val \<Rightarrow> val result) \<Rightarrow> store \<Rightarrow> addr \<Rightarrow> val \<Rightarrow> val result" where
  "VarExpression_eq eq s self other =
     (case (deref s self, (case other of VRef y \<Rightarrow> deref s y | _ \<Rightarrow> None)) of
        (Some ob, Some ob') \<Rightarrow>
          if klass ob = klass ob' then eq s (getfield ob ''value'') (getfield ob' ''value'')
          else (s, Inr (VBool False))
      | _ \<Rightarrow> (s, Inr (VBool False)))"

text \<open>\<^verbatim>\<open>self.f == other.g\<close>, for a field \<open>f\<close> of \<open>self\<close> and an attribute \<open>g\<close> read off
  \<open>other\<close>.\<close>

definition eq_attr ::
  "(store \<Rightarrow> val \<Rightarrow> val \<Rightarrow> val result) \<Rightarrow> addr \<Rightarrow> string \<Rightarrow> val \<Rightarrow> string \<Rightarrow> store \<Rightarrow> val result" where
  "eq_attr eq self f other g s =
     (case (deref s self, other) of
        (Some ob, VRef y) \<Rightarrow> (case getattribute s y g of (s', v) \<Rightarrow> eq s' (getfield ob f) v)
      | _ \<Rightarrow> (s, Inl NotModelled))"

definition List_eq ::
  "(store \<Rightarrow> val \<Rightarrow> val \<Rightarrow> val result) \<Rightarrow> store \<Rightarrow> addr \<Rightarrow> val \<Rightarrow> val result" where
  "List_eq eq s self other =
     and_then (and_then (and_then (VarExpression_eq eq s self other)
       (eq_attr eq self ''_values'' other ''_values''))
       (eq_attr eq self ''_k'' other ''_k''))
       (eq_attr eq self ''_replace'' other ''_replace'')"

definition Int_eq ::
  "(store \<Rightarrow> val \<Rightarrow> val \<Rightarrow> val result) \<Rightarrow> store \<Rightarrow> addr \<Rightarrow> val \<Rightarrow> val result" where
  "Int_eq eq s self other =
     and_then (and_then (VarExpression_eq eq s self other)
       (eq_attr eq self ''_high'' other ''_upper''))
       (eq_attr eq self ''_low'' other ''_lower'')"

definition Float_eq ::
  "(store \<Rightarrow> val \<Rightarrow> val \<Rightarrow> val result) \<Rightarrow> store \<Rightarrow> addr \<Rightarrow> val \<Rightarrow> val result" where
  "Float_eq eq s self other =
     and_then (and_then (VarExpression_eq eq s self other)
       (eq_attr eq self ''_high'' other ''_upper''))
       (eq_attr eq self ''_low'' other ''_lower'')"

text \<open>\<^verbatim>\<open>self.__eq__(other)\<close> for an \<^verbatim>\<open>Expression\<close> \<open>self\<close>, by its class.\<close>

definition Expression_eq ::
  "(store \<Rightarrow> val \<Rightarrow> val \<Rightarrow> val result) \<Rightarrow> store \<Rightarrow> addr \<Rightarrow> val \<Rightarrow> val result" where
  "Expression_eq eq s self other =
     (case deref s self of
        None \<Rightarrow> (s, Inl NotModelled)
      | Some ob \<Rightarrow>
          if klass ob = List_cls then List_eq eq s self other
          else if klass ob = Int_cls then Int_eq eq s self other
          else if klass ob = Float_cls then Float_eq eq s self other
          else (case new_BinaryExpression s (VRef self) other ''=='' of
                  (s', r) \<Rightarrow> (s', Inr (VRef r))))"

definition py_eq_step ::
  "(store \<Rightarrow> val \<Rightarrow> val \<Rightarrow> val result) \<Rightarrow> store \<Rightarrow> val \<Rightarrow> val \<Rightarrow> val result" where
  "py_eq_step eq s a b =
     (case (if isinstance_Expression s a then a else VNone,
            if isinstance_Expression s b then b else VNone) of
        (VRef x, _) \<Rightarrow> Expression_eq eq s x b
      | (_, VRef y) \<Rightarrow> Expression_eq eq s y a
      | _ \<Rightarrow>
        (case (num_of a, num_of b) of
           (Some x, Some y) \<Rightarrow> (s, Inr (VBool (x = y)))
         | _ \<Rightarrow>
           (case (a, b) of
              (VList xs, VList ys) \<Rightarrow>
                if length xs \<noteq> length ys then (s, Inr (VBool False)) else py_eq_list eq s xs ys
            | (VDict xs, VDict ys) \<Rightarrow>
                if length xs \<noteq> length ys \<or> (\<exists>k \<in> set (map fst xs). map_of ys k = None)
                then (s, Inr (VBool False))
                else py_eq_list eq s (map snd xs) (map (\<lambda>(k, v). the (map_of ys k)) xs)
            | _ \<Rightarrow> (s, Inr (VBool (a = b))))))"

primrec py_eq :: "nat \<Rightarrow> store \<Rightarrow> val \<Rightarrow> val \<Rightarrow> val result" where
  "py_eq 0 = (\<lambda>s a b. (s, Inl RecursionError))"
| "py_eq (Suc n) = py_eq_step (py_eq n)"



section \<open>Freezing the bounded variables\<close>

text \<open>
  \<^verbatim>\<open>Int.freeze\<close> (and the textually identical \<^verbatim>\<open>Float.freeze\<close>). The result is the store
  after the call together with the exception raised, if any: an exception leaves the store
  as it was when it was raised. The \<^verbatim>\<open>ValueError\<close> carries what its message is formatted
  from: the variable, its two bounds and the rejected choice.
\<close>

definition bounded_freeze :: "store \<Rightarrow> addr \<Rightarrow> (val \<rightharpoonup> val) \<Rightarrow> store \<times> error option" where
  "bounded_freeze s self choice =
     (case deref s self of
        None \<Rightarrow> (s, Some (AttributeError ''freeze''))
      | Some ob \<Rightarrow>
        (case choice (id_of ob) of
           None \<Rightarrow> (s, Some (KeyError (id_of ob)))
         | Some c \<Rightarrow>
           (let low = getfield ob ''_low''; high = getfield ob ''_high'' in
            if \<not> (isinstance_VarExpression s low \<or> isinstance_VarExpression s high) then
              (case py_gt s low c of
                 (s1, Inl e) \<Rightarrow> (s1, Some e)
               | (s1, Inr r1) \<Rightarrow>
                 if truthy r1 then (s1, Some (ValueError self low high c))
                 else
                   (case py_gt s1 c high of
                      (s2, Inl e) \<Rightarrow> (s2, Some e)
                    | (s2, Inr r2) \<Rightarrow>
                      if truthy r2 then (s2, Some (ValueError self low high c))
                      else (setattr s2 self ''value'' c, None)))
            else (setattr s self ''value'' c, None))))"

definition Int_freeze :: "store \<Rightarrow> addr \<Rightarrow> (val \<rightharpoonup> val) \<Rightarrow> store \<times> error option" where
  "Int_freeze = bounded_freeze"

definition Float_freeze :: "store \<Rightarrow> addr \<Rightarrow> (val \<rightharpoonup> val) \<Rightarrow> store \<times> error option" where
  "Float_freeze = bounded_freeze"

section \<open>Collecting the variables of a graph\<close>

text \<open>
  \<^verbatim>\<open>Expression.choices\<close>, with the overrides of \<^verbatim>\<open>VarExpression\<close> and
  \<^verbatim>\<open>ExpressionCallExpression\<close>. The first argument bounds the depth of the recursion, as
  the interpreter's recursion limit does: when it is used up the call raises
  \<^verbatim>\<open>RecursionError\<close>. \<open>choice_aux\<close> is the loop of \<^verbatim>\<open>tree.map_structure\<close> over the flattened
  fields, threading the dictionary \<^verbatim>\<open>memo\<close>.
\<close>

fun choices :: "nat \<Rightarrow> store \<Rightarrow> addr \<Rightarrow> error + (val \<rightharpoonup> addr)"
  and choice_aux :: "nat \<Rightarrow> store \<Rightarrow> val list \<Rightarrow> (val \<rightharpoonup> addr) \<Rightarrow> error + (val \<rightharpoonup> addr)" where
  "choices 0 s self = Inl RecursionError"
| "choices (Suc n) s self =
     (case deref s self of
        None \<Rightarrow> Inl (AttributeError ''choices'')
      | Some ob \<Rightarrow>
        if is_VarExpression_cls (klass ob) then Inr [id_of ob \<mapsto> self]
        else if klass ob = ExpressionCallExpression then
          (case getfield ob ''expression'' of
             VRef e \<Rightarrow>
               (case choices n s e of
                  Inl err \<Rightarrow> Inl err
                | Inr memo \<Rightarrow>
                    choice_aux n s (flatten (getfield ob ''args'') @ flatten (getfield ob ''kwargs'')) memo)
           | _ \<Rightarrow> Inl (AttributeError ''choices''))
        else choice_aux n s (flatten (VDict (dict ob))) Map.empty)"
| "choice_aux n s [] memo = Inr memo"
| "choice_aux n s (x # xs) memo =
     (case x of
        VRef b \<Rightarrow>
          (case deref s b of
             None \<Rightarrow> choice_aux n s xs memo
           | Some ob \<Rightarrow>
               if is_VarExpression_cls (klass ob) then choice_aux n s xs (memo(id_of ob \<mapsto> b))
               else (case choices n s b of
                       Inl err \<Rightarrow> Inl err
                     | Inr m \<Rightarrow> choice_aux n s xs (memo ++ m)))
      | _ \<Rightarrow> choice_aux n s xs memo)"


section \<open>The operator registry and operator nodes\<close>

text \<open>
  The tables \<^verbatim>\<open>BIN_OPS_SYNTAX_2_ATTR\<close> and \<^verbatim>\<open>UNA_OPS_SYNTAX_2_ATTR\<close> from operator symbols to
  method names, in the order of the source, and the inverse \<^verbatim>\<open>BIN_OPS_ATTR_2_SYNTAX\<close> built
  from the first.
\<close>

definition BIN_OPS_SYNTAX_2_ATTR :: "(string \<times> string) list" where
  "BIN_OPS_SYNTAX_2_ATTR =
     [(''<'', ''__lt__''), (''<='', ''__le__''), (''=='', ''__eq__''), (''!='', ''__ne__''),
      (''>'', ''__gt__''), (''>='', ''__ge__''),
      (''+'', ''__add__''), (''-'', ''__sub__''), (''*'', ''__mul__''), (''@'', ''__matmul__''),
      (''/'', ''__truediv__''), (''//'', ''__floordiv__''), (''%'', ''__mod__''),
      (''**'', ''__pow__''),
      (''and'', ''__and__''), (''^'', ''__xor__''), (''or'', ''__or__'')]"

definition BIN_OPS_ATTR_2_SYNTAX :: "(string \<times> string) list" where
  "BIN_OPS_ATTR_2_SYNTAX = map (\<lambda>(k, v). (v, k)) BIN_OPS_SYNTAX_2_ATTR"

definition UNA_OPS_SYNTAX_2_ATTR :: "(string \<times> string) list" where
  "UNA_OPS_SYNTAX_2_ATTR = [(''-'', ''__neg__''), (''+'', ''__pos__''), (''~'', ''__invert__'')]"

text \<open>\<^verbatim>\<open>Expression.__add__\<close>, \<^verbatim>\<open>Expression.__radd__\<close> and \<^verbatim>\<open>Expression.__mul__\<close>.\<close>

definition Expression_add :: "store \<Rightarrow> val \<Rightarrow> val \<Rightarrow> store \<times> addr" where
  "Expression_add s self other =
     new_BinaryExpression s self other (the (map_of BIN_OPS_ATTR_2_SYNTAX ''__add__''))"

definition Expression_radd :: "store \<Rightarrow> val \<Rightarrow> val \<Rightarrow> store \<times> addr" where
  "Expression_radd s self other =
     new_BinaryExpression s other self (the (map_of BIN_OPS_ATTR_2_SYNTAX ''__add__''))"

definition Expression_mul :: "store \<Rightarrow> val \<Rightarrow> val \<Rightarrow> store \<times> addr" where
  "Expression_mul s self other =
     new_BinaryExpression s self other (the (map_of BIN_OPS_ATTR_2_SYNTAX ''__mul__''))"

section \<open>Evaluation\<close>

text \<open>
  \<^verbatim>\<open>evaluate\<close> resolves the children of a node in place (\<^verbatim>\<open>evaluate_children\<close>) and then
  performs the node's own operation on the resolved fields. What the host language does
  with resolved values (looking up an operator method on a value, calling a value, indexing
  it, reading an attribute off it) is the parameter \<open>H\<close>; these operations do not touch the
  store. A missing method is \<^verbatim>\<open>AttributeError\<close>. \<open>evaluate\<close> iterates the step; its numeric
  argument bounds the depth of the recursion.
\<close>

record host =
  host_method :: "val \<Rightarrow> string \<Rightarrow> (val list \<Rightarrow> error + val) option"
  host_call :: "val \<Rightarrow> val list \<Rightarrow> (string \<times> val) list \<Rightarrow> error + val"
  host_getitem :: "val \<Rightarrow> val \<Rightarrow> error + val"
  host_getattr :: "val \<Rightarrow> string \<Rightarrow> error + val"

text \<open>The inner function \<^verbatim>\<open>evaluate_aux\<close> of \<^verbatim>\<open>evaluate_children\<close>, with \<open>rec\<close> for
  \<^verbatim>\<open>o.evaluate()\<close>, and its application to the flattened leaves in order.\<close>

definition evaluate_aux :: "(store \<Rightarrow> addr \<Rightarrow> val result) \<Rightarrow> store \<Rightarrow> val \<Rightarrow> val result" where
  "evaluate_aux rec s x =
     (case x of VRef b \<Rightarrow> if b < length (objs s) then rec s b else (s, Inr x)
      | _ \<Rightarrow> (s, Inr x))"

fun evaluate_leaves ::
  "(store \<Rightarrow> addr \<Rightarrow> val result) \<Rightarrow> store \<Rightarrow> val list \<Rightarrow> (val list) result" where
  "evaluate_leaves rec s [] = (s, Inr [])"
| "evaluate_leaves rec s (x # xs) =
     (case evaluate_aux rec s x of
        (s1, Inl e) \<Rightarrow> (s1, Inl e)
      | (s1, Inr y) \<Rightarrow>
          (case evaluate_leaves rec s1 xs of
             (s2, Inl e) \<Rightarrow> (s2, Inl e)
           | (s2, Inr ys) \<Rightarrow> (s2, Inr (y # ys))))"

definition map_structure_evaluate ::
  "(store \<Rightarrow> addr \<Rightarrow> val result) \<Rightarrow> store \<Rightarrow> val \<Rightarrow> val result" where
  "map_structure_evaluate rec s v =
     (case evaluate_leaves rec s (flatten v) of
        (s1, Inl e) \<Rightarrow> (s1, Inl e)
      | (s1, Inr ys) \<Rightarrow> (s1, Inr (fst (unflatten_as v ys))))"

definition evaluate_children ::
  "(store \<Rightarrow> addr \<Rightarrow> val result) \<Rightarrow> store \<Rightarrow> addr \<Rightarrow> ((string \<times> val) list) result" where
  "evaluate_children rec s self =
     (case deref s self of
        None \<Rightarrow> (s, Inl (AttributeError ''__dict__''))
      | Some ob \<Rightarrow>
        (case map_structure_evaluate rec s (VDict (dict ob)) of
           (s1, Inl e) \<Rightarrow> (s1, Inl e)
         | (s1, Inr d) \<Rightarrow>
             (case d of
                VDict kvs \<Rightarrow> (s1\<lparr>objs := (objs s1)[self := ob\<lparr>dict := kvs\<rparr>]\<rparr>, Inr kvs)
              | _ \<Rightarrow> (s1, Inl NotModelled))))"

definition fld :: "(string \<times> val) list \<Rightarrow> string \<Rightarrow> val" where
  "fld d k = (case map_of d k of Some v \<Rightarrow> v | None \<Rightarrow> VNone)"

definition list_of :: "val \<Rightarrow> val list" where
  "list_of v = (case v of VList xs \<Rightarrow> xs | _ \<Rightarrow> [])"

definition dict_of :: "val \<Rightarrow> (string \<times> val) list" where
  "dict_of v = (case v of VDict kvs \<Rightarrow> kvs | _ \<Rightarrow> [])"

definition node_operation :: "host \<Rightarrow> cls \<Rightarrow> (string \<times> val) list \<Rightarrow> error + val" where
  "node_operation H c d =
     (if c = BinaryExpression then
        (case (case fld d ''operator'' of VStr symb \<Rightarrow> map_of BIN_OPS_SYNTAX_2_ATTR symb | _ \<Rightarrow> None) of
           None \<Rightarrow> Inl (KeyError (fld d ''operator''))
         | Some attr \<Rightarrow>
             (case host_method H (fld d ''left'') attr of
                None \<Rightarrow> Inl (AttributeError attr)
              | Some operator_implementation \<Rightarrow> operator_implementation [fld d ''right'']))
      else if c = UnaryExpression then
        (case (case fld d ''operator'' of VStr symb \<Rightarrow> map_of UNA_OPS_SYNTAX_2_ATTR symb | _ \<Rightarrow> None) of
           None \<Rightarrow> Inl (KeyError (fld d ''operator''))
         | Some attr \<Rightarrow>
             (case host_method H (fld d ''x'') attr of
                None \<Rightarrow> Inl (AttributeError attr)
              | Some operator_implementation \<Rightarrow> operator_implementation []))
      else if c = FunctionCallExpression then
        (if truthy (fld d ''function_parent'') then
           (case host_getattr H (fld d ''function'') ''__name__'' of
              Inl e \<Rightarrow> Inl e
            | Inr name \<Rightarrow>
                if name = VStr ''__init__''
                then host_call H (fld d ''function_parent'') (list_of (fld d ''args''))
                       (dict_of (fld d ''kwargs''))
                else host_call H (fld d ''function'')
                       (fld d ''function_parent'' # list_of (fld d ''args''))
                       (dict_of (fld d ''kwargs'')))
         else host_call H (fld d ''function'') (list_of (fld d ''args''))
                (dict_of (fld d ''kwargs'')))
      else if c = ExpressionItemAccess then
        host_getitem H (fld d ''expression'') (fld d ''item'')
      else if c = ExpressionAttributeAccess then
        (case fld d ''name'' of
           VStr name \<Rightarrow> host_getattr H (fld d ''expression'') name
         | _ \<Rightarrow> Inl TypeError)
      else if c = ExpressionCallExpression then
        host_call H (fld d ''expression'') (list_of (fld d ''args''))
          (dict_of (fld d ''kwargs''))
      else Inr (fld d ''_obj''))"

definition VarExpression_evaluate ::
  "(store \<Rightarrow> addr \<Rightarrow> val result) \<Rightarrow> store \<Rightarrow> pyobj \<Rightarrow> val result" where
  "VarExpression_evaluate rec s ob =
     (let v = getfield ob ''value'' in
      if isinstance_Expression s v then (case v of VRef b \<Rightarrow> rec s b | _ \<Rightarrow> (s, Inr v))
      else if is_nested v then map_structure_evaluate rec s v
      else (s, Inr v))"

definition evaluate_step ::
  "host \<Rightarrow> (store \<Rightarrow> addr \<Rightarrow> val result) \<Rightarrow> store \<Rightarrow> addr \<Rightarrow> val result" where
  "evaluate_step H rec s self =
     (case deref s self of
        None \<Rightarrow> (s, Inl (AttributeError ''evaluate''))
      | Some ob \<Rightarrow>
          if is_VarExpression_cls (klass ob) then VarExpression_evaluate rec s ob
          else
            (case evaluate_children rec s self of
               (s1, Inl e) \<Rightarrow> (s1, Inl e)
             | (s1, Inr d) \<Rightarrow> (s1, node_operation H (klass ob) d)))"

primrec evaluate :: "host \<Rightarrow> nat \<Rightarrow> store \<Rightarrow> addr \<Rightarrow> val result" where
  "evaluate H 0 = (\<lambda>s self. (s, Inl RecursionError))"
| "evaluate H (Suc n) = evaluate_step H (evaluate H n)"

text \<open>The operator methods of the host's integers on integers (booleans count as
  integers); on any other operand they return \<^verbatim>\<open>NotImplemented\<close>.\<close>

definition int_operand :: "val \<Rightarrow> int option" where
  "int_operand v = (case v of VInt i \<Rightarrow> Some i | VBool b \<Rightarrow> Some (if b then 1 else 0) | _ \<Rightarrow> None)"

definition int_method :: "int \<Rightarrow> string \<Rightarrow> (val list \<Rightarrow> error + val) option" where
  "int_method a name =
     (let bin = (\<lambda>f. Some (\<lambda>args. case args of
                    [b] \<Rightarrow> (case int_operand b of Some y \<Rightarrow> Inr (f y) | None \<Rightarrow> Inr VNotImplemented)
                  | _ \<Rightarrow> Inl TypeError)) in
      if name = ''__add__'' then bin (\<lambda>y. VInt (a + y))
      else if name = ''__sub__'' then bin (\<lambda>y. VInt (a - y))
      else if name = ''__mul__'' then bin (\<lambda>y. VInt (a * y))
      else if name = ''__lt__'' then bin (\<lambda>y. VBool (a < y))
      else if name = ''__le__'' then bin (\<lambda>y. VBool (a \<le> y))
      else if name = ''__eq__'' then bin (\<lambda>y. VBool (a = y))
      else if name = ''__ne__'' then bin (\<lambda>y. VBool (a \<noteq> y))
      else if name = ''__gt__'' then bin (\<lambda>y. VBool (a > y))
      else if name = ''__ge__'' then bin (\<lambda>y. VBool (a \<ge> y))
      else if name = ''__neg__'' then Some (\<lambda>args. case args of [] \<Rightarrow> Inr (VInt (- a)) | _ \<Rightarrow> Inl TypeError)
      else if name = ''__pos__'' then Some (\<lambda>args. case args of [] \<Rightarrow> Inr (VInt a) | _ \<Rightarrow> Inl TypeError)
      else if name = ''__invert__'' then Some (\<lambda>args. case args of [] \<Rightarrow> Inr (VInt (- a - 1)) | _ \<Rightarrow> Inl TypeError)
      else if name = ''__matmul__'' then None
      else Some (\<lambda>args. Inl NotModelled))"

definition py_host :: host where
  "py_host = \<lparr>
     host_method = (\<lambda>v name. case v of VInt a \<Rightarrow> int_method a name
                              | _ \<Rightarrow> Some (\<lambda>args. Inl NotModelled)),
     host_call = (\<lambda>f args kwargs. Inl NotModelled),
     host_getitem = (\<lambda>v i. Inl NotModelled),
     host_getattr = (\<lambda>v name. case v of VAttr w n \<Rightarrow> (if name = ''__name__'' then Inr (VStr n) else Inl NotModelled)
                               | VExt k n \<Rightarrow> (if name = ''__name__'' then Inr (VStr n) else Inl NotModelled)
                               | _ \<Rightarrow> Inl NotModelled)\<rparr>"

section \<open>Freezing a graph\<close>

text \<open>
  \<^verbatim>\<open>freeze(choice)\<close> by the class of the node: \<^verbatim>\<open>List.freeze\<close>, \<^verbatim>\<open>Int.freeze\<close>,
  \<^verbatim>\<open>Float.freeze\<close>, \<^verbatim>\<open>ExpressionCallExpression.freeze\<close> and the generic
  \<^verbatim>\<open>Expression.freeze\<close>. The result is the store after the call and the exception raised, if
  any; what was mutated before an exception stays mutated. \<open>freeze\<close> iterates the step; its
  numeric argument bounds the depth of the recursion.
\<close>

text \<open>Indexing a list of the host language with one index: an integer (a boolean counts
  as one), negative from the end; out of range is \<^verbatim>\<open>IndexError\<close>, any other index
  \<^verbatim>\<open>TypeError\<close>.\<close>

definition list_getitem :: "val list \<Rightarrow> val \<Rightarrow> error + val" where
  "list_getitem xs i =
     (case int_operand i of
        None \<Rightarrow> Inl TypeError
      | Some n \<Rightarrow>
          (let len = int (length xs); j = (if n < 0 then n + len else n) in
           if 0 \<le> j \<and> j < len then Inr (xs ! nat j) else Inl IndexError))"

fun getitems :: "val list \<Rightarrow> val list \<Rightarrow> error + val list" where
  "getitems xs [] = Inr []"
| "getitems xs (i # is) =
     (case list_getitem xs i of
        Inl e \<Rightarrow> Inl e
      | Inr v \<Rightarrow> (case getitems xs is of Inl e \<Rightarrow> Inl e | Inr vs \<Rightarrow> Inr (v # vs)))"

text \<open>\<^verbatim>\<open>isinstance(v, collections.abc.Iterable)\<close> and the members a loop over \<open>v\<close> visits
  (the characters of a string, the keys of a dictionary).\<close>

fun is_Iterable :: "val \<Rightarrow> bool" where
  "is_Iterable (VList xs) = True"
| "is_Iterable (VStr cs) = True"
| "is_Iterable (VDict kvs) = True"
| "is_Iterable v = False"

fun iter :: "val \<Rightarrow> val list" where
  "iter (VList xs) = xs"
| "iter (VStr cs) = map (\<lambda>c. VStr [c]) cs"
| "iter (VDict kvs) = map (\<lambda>(k, v). VStr k) kvs"
| "iter v = []"

text \<open>\<^verbatim>\<open>List._getitem\<close>: \<^verbatim>\<open>np.issubdtype(type(item), np.integer)\<close> holds of an integer
  (not of a boolean).\<close>

definition List_getitem :: "pyobj \<Rightarrow> val \<Rightarrow> error + val" where
  "List_getitem ob item =
     (case item of
        VInt i \<Rightarrow> list_getitem (list_of (getfield ob ''_values'')) item
      | _ \<Rightarrow>
          if is_Iterable item then
            (case getitems (list_of (getfield ob ''_values'')) (iter item) of
               Inl e \<Rightarrow> Inl e
             | Inr vs \<Rightarrow> Inr (VList vs))
          else Inl (ValueErrorIndex item))"

text \<open>\<^verbatim>\<open>[i for i in range(c)]\<close>.\<close>

definition py_range :: "val \<Rightarrow> error + val" where
  "py_range c =
     (case int_operand c of
        None \<Rightarrow> Inl TypeError
      | Some n \<Rightarrow> Inr (VList (map (\<lambda>i. VInt (int i)) [0 ..< nat n])))"

type_synonym choice = "val \<rightharpoonup> val"

text \<open>The inner function \<^verbatim>\<open>freeze_aux\<close> of \<^verbatim>\<open>Expression.freeze\<close> applied to the flattened
  leaves in order, with \<open>rec\<close> for \<^verbatim>\<open>o.freeze(choice)\<close>.\<close>

fun freeze_leaves ::
  "(store \<Rightarrow> addr \<Rightarrow> store \<times> error option) \<Rightarrow> store \<Rightarrow> val list \<Rightarrow> store \<times> error option" where
  "freeze_leaves rec s [] = (s, None)"
| "freeze_leaves rec s (x # xs) =
     (case x of
        VRef b \<Rightarrow>
          if b < length (objs s) then
            (case rec s b of
               (s1, Some e) \<Rightarrow> (s1, Some e)
             | (s1, None) \<Rightarrow> freeze_leaves rec s1 xs)
          else freeze_leaves rec s xs
      | _ \<Rightarrow> freeze_leaves rec s xs)"

definition Expression_freeze ::
  "(store \<Rightarrow> addr \<Rightarrow> store \<times> error option) \<Rightarrow> store \<Rightarrow> pyobj \<Rightarrow> store \<times> error option" where
  "Expression_freeze rec s ob = freeze_leaves rec s (flatten (VDict (dict ob)))"

definition ExpressionCallExpression_freeze ::
  "(store \<Rightarrow> addr \<Rightarrow> store \<times> error option) \<Rightarrow> store \<Rightarrow> pyobj \<Rightarrow> store \<times> error option" where
  "ExpressionCallExpression_freeze rec s ob =
     (case (if isinstance_Expression s (getfield ob ''expression'')
            then getfield ob ''expression'' else VNone) of
        VRef e \<Rightarrow>
          (case rec s e of
             (s1, Some err) \<Rightarrow> (s1, Some err)
           | (s1, None) \<Rightarrow>
               (case freeze_leaves rec s1 (flatten (getfield ob ''args'')) of
                  (s2, Some err) \<Rightarrow> (s2, Some err)
                | (s2, None) \<Rightarrow> freeze_leaves rec s2 (flatten (getfield ob ''kwargs''))))
      | _ \<Rightarrow> (s, Some (AttributeError ''freeze'')))"

text \<open>The loop at the end of \<^verbatim>\<open>List.freeze\<close> over the members \<open>i\<close> of \<open>idx\<close>: it reads
  \<^verbatim>\<open>self.value[i]\<close> and freezes it when it is an \<^verbatim>\<open>Expression\<close>.\<close>

fun List_freeze_loop ::
  "(store \<Rightarrow> addr \<Rightarrow> store \<times> error option) \<Rightarrow> store \<Rightarrow> addr \<Rightarrow> val list \<Rightarrow> store \<times> error option" where
  "List_freeze_loop rec s self [] = (s, None)"
| "List_freeze_loop rec s self (i # is) =
     (case deref s self of
        None \<Rightarrow> (s, Some (AttributeError ''value''))
      | Some ob \<Rightarrow>
          (case getfield ob ''value'' of
             VList vs \<Rightarrow>
               (case list_getitem vs i of
                  Inl e \<Rightarrow> (s, Some e)
                | Inr x \<Rightarrow>
                    (case (if isinstance_Expression s x then x else VNone) of
                       VRef b \<Rightarrow>
                         (case rec s b of
                            (s1, Some e) \<Rightarrow> (s1, Some e)
                          | (s1, None) \<Rightarrow> List_freeze_loop rec s1 self is)
                     | _ \<Rightarrow> List_freeze_loop rec s self is))
           | _ \<Rightarrow> (s, Some NotModelled)))"

text \<open>The first half of \<^verbatim>\<open>List.freeze\<close>: the index \<open>idx\<close> read from the choice mapping
  and checked, by the four cases of \<^verbatim>\<open>_k\<close> and \<^verbatim>\<open>_invariant\<close>.\<close>

definition List_freeze_idx ::
  "(store \<Rightarrow> val \<Rightarrow> val \<Rightarrow> val result) \<Rightarrow> store \<Rightarrow> pyobj \<Rightarrow> choice \<Rightarrow> val result" where
  "List_freeze_idx eq s ob choice =
     (if getfield ob ''_k'' = VNone then
        (case choice (id_of ob) of
           None \<Rightarrow> (s, Inl (KeyError (id_of ob)))
         | Some idx \<Rightarrow>
             if truthy (getfield ob ''_invariant'') then
               (case eq s idx (VInt 0) of
                  (s1, Inl e) \<Rightarrow> (s1, Inl e)
                | (s1, Inr r) \<Rightarrow> if truthy r then (s1, Inr idx) else (s1, Inl AssertionError))
             else
               (case and_then (py_compare Le s (VInt 0) idx)
                       (\<lambda>s1. py_compare Lt s1 idx
                                (VInt (int (length (list_of (getfield ob ''_values'')))))) of
                  (s2, Inl e) \<Rightarrow> (s2, Inl e)
                | (s2, Inr r) \<Rightarrow> if truthy r then (s2, Inr idx) else (s2, Inl AssertionError)))
      else if truthy (getfield ob ''_invariant'') then
        (let key = (case (case getfield ob ''_k'' of VRef k \<Rightarrow> deref s k | _ \<Rightarrow> None) of
                      Some kob \<Rightarrow> if is_VarExpression_cls (klass kob) then id_of kob else id_of ob
                    | None \<Rightarrow> id_of ob) in
         case choice key of
           None \<Rightarrow> (s, Inl (KeyError key))
         | Some c \<Rightarrow> (s, py_range c))
      else
        (case choice (id_of ob) of
           None \<Rightarrow> (s, Inl (KeyError (id_of ob)))
         | Some idx \<Rightarrow>
             (case idx of VList is \<Rightarrow> (s, Inr idx) | _ \<Rightarrow> (s, Inl AssertionError))))"

definition List_freeze ::
  "(store \<Rightarrow> val \<Rightarrow> val \<Rightarrow> val result) \<Rightarrow> (store \<Rightarrow> addr \<Rightarrow> store \<times> error option) \<Rightarrow>
     store \<Rightarrow> addr \<Rightarrow> choice \<Rightarrow> store \<times> error option" where
  "List_freeze eq rec s self choice =
     (case deref s self of
        None \<Rightarrow> (s, Some (AttributeError ''freeze''))
      | Some ob \<Rightarrow>
          (case List_freeze_idx eq s ob choice of
             (s1, Inl e) \<Rightarrow> (s1, Some e)
           | (s1, Inr idx) \<Rightarrow>
               (case List_getitem ob idx of
                  Inl e \<Rightarrow> (s1, Some e)
                | Inr v \<Rightarrow>
                    (let s2 = setattr s1 self ''value'' v in
                     if is_Iterable idx then List_freeze_loop rec s2 self (iter idx)
                     else
                       (case (if isinstance_Expression s2 v then v else VNone) of
                          VRef b \<Rightarrow> rec s2 b
                        | _ \<Rightarrow> (s2, None))))))"

definition freeze_step ::
  "(store \<Rightarrow> val \<Rightarrow> val \<Rightarrow> val result) \<Rightarrow> choice \<Rightarrow> (store \<Rightarrow> addr \<Rightarrow> store \<times> error option) \<Rightarrow>
     store \<Rightarrow> addr \<Rightarrow> store \<times> error option" where
  "freeze_step eq choice rec s self =
     (case deref s self of
        None \<Rightarrow> (s, Some (AttributeError ''freeze''))
      | Some ob \<Rightarrow>
          if klass ob = List_cls then List_freeze eq rec s self choice
          else if klass ob = Int_cls then Int_freeze s self choice
          else if klass ob = Float_cls then Float_freeze s self choice
          else if klass ob = ExpressionCallExpression then ExpressionCallExpression_freeze rec s ob
          else Expression_freeze rec s ob)"

primrec freeze :: "nat \<Rightarrow> choice \<Rightarrow> store \<Rightarrow> addr \<Rightarrow> store \<times> error option" where
  "freeze 0 choice = (\<lambda>s self. (s, Some RecursionError))"
| "freeze (Suc n) choice = freeze_step (py_eq n) choice (freeze n choice)"

section \<open>The variables met by the traversal\<close>

text \<open>
  The specification describes \<^verbatim>\<open>choices()\<close> by the variables reachable from a node, in
  traversal order. \<open>occurrences\<close> follows these words: it lists the variables in the order
  in which the walk over the fields meets them, a variable being listed and not descended
  into. \<open>last_wins\<close> maps each identity in such a list to its last occurrence;
  \<open>children_older\<close> says that the fields of every object refer to objects allocated before
  it (the constructors build graphs bottom up), and that the callee of a call node is an
  \<^verbatim>\<open>Expression\<close>.
\<close>

fun occurrences :: "nat \<Rightarrow> store \<Rightarrow> addr \<Rightarrow> error + addr list"
  and occurrences_aux :: "nat \<Rightarrow> store \<Rightarrow> val list \<Rightarrow> error + addr list" where
  "occurrences 0 s self = Inl RecursionError"
| "occurrences (Suc n) s self =
     (case deref s self of
        None \<Rightarrow> Inl (AttributeError ''choices'')
      | Some ob \<Rightarrow>
        if is_VarExpression_cls (klass ob) then Inr [self]
        else if klass ob = ExpressionCallExpression then
          (case getfield ob ''expression'' of
             VRef e \<Rightarrow>
               (case occurrences n s e of
                  Inl err \<Rightarrow> Inl err
                | Inr vs \<Rightarrow>
                    (case occurrences_aux n s
                            (flatten (getfield ob ''args'') @ flatten (getfield ob ''kwargs'')) of
                       Inl err \<Rightarrow> Inl err
                     | Inr ws \<Rightarrow> Inr (vs @ ws)))
           | _ \<Rightarrow> Inl (AttributeError ''choices''))
        else occurrences_aux n s (flatten (VDict (dict ob))))"
| "occurrences_aux n s [] = Inr []"
| "occurrences_aux n s (x # xs) =
     (case x of
        VRef b \<Rightarrow>
          (case deref s b of
             None \<Rightarrow> occurrences_aux n s xs
           | Some ob \<Rightarrow>
               (case (if is_VarExpression_cls (klass ob) then Inr [b] else occurrences n s b) of
                  Inl err \<Rightarrow> Inl err
                | Inr vs \<Rightarrow>
                    (case occurrences_aux n s xs of
                       Inl err \<Rightarrow> Inl err
                     | Inr ws \<Rightarrow> Inr (vs @ ws))))
      | _ \<Rightarrow> occurrences_aux n s xs)"

definition ident :: "store \<Rightarrow> addr \<Rightarrow> val" where
  "ident s v = (case deref s v of Some ob \<Rightarrow> id_of ob | None \<Rightarrow> VNone)"

definition last_wins :: "store \<Rightarrow> addr list \<Rightarrow> (val \<rightharpoonup> addr)" where
  "last_wins s vs = map_of (rev (map (\<lambda>v. (ident s v, v)) vs))"

definition all_variables :: "store \<Rightarrow> addr list \<Rightarrow> bool" where
  "all_variables s vs = (\<forall>v \<in> set vs. isinstance_VarExpression s (VRef v))"


definition children_older :: "store \<Rightarrow> bool" where
  "children_older s =
     (\<forall>a < length (objs s).
        (\<forall>b. VRef b \<in> set (flatten (VDict (dict (objs s ! a)))) \<longrightarrow> b < a) \<and>
        (klass (objs s ! a) = ExpressionCallExpression \<longrightarrow>
           (\<exists>e < a. getfield (objs s ! a) ''expression'' = VRef e) \<and>
           (\<forall>b. VRef b \<in> set (flatten (getfield (objs s ! a) ''args'') @
                                flatten (getfield (objs s ! a) ''kwargs'')) \<longrightarrow> b < a)))"

section \<open>Copying a graph\<close>

text \<open>
  \<^verbatim>\<open>copy.deepcopy(x, memo)\<close> of the host on the modelled values: a value without identity
  is returned (containers member by member, a dictionary in its own order); an
  \<^verbatim>\<open>Expression\<close> already in the memo is answered from it, any other is copied by its
  \<^verbatim>\<open>__deepcopy__\<close> (the parameter \<open>rec\<close>) and the copy is recorded in the memo.
  \<^verbatim>\<open>Expression.__deepcopy__\<close> makes a new object of the same class, records it in the memo it
  was given, and fills it with \<^verbatim>\<open>copy.deepcopy(self.__dict__)\<close>: a call with no memo argument,
  which therefore starts from an empty memo of its own. \<open>deepcopy\<close> iterates
  \<^verbatim>\<open>__deepcopy__\<close>; its numeric argument bounds the depth of the recursion.
\<close>

type_synonym memo = "addr \<rightharpoonup> addr"

fun deepcopy_val ::
  "(store \<Rightarrow> memo \<Rightarrow> addr \<Rightarrow> store \<times> memo \<times> (error + addr)) \<Rightarrow> store \<Rightarrow> memo \<Rightarrow> val \<Rightarrow>
     store \<times> memo \<times> (error + val)"
  and deepcopy_list ::
  "(store \<Rightarrow> memo \<Rightarrow> addr \<Rightarrow> store \<times> memo \<times> (error + addr)) \<Rightarrow> store \<Rightarrow> memo \<Rightarrow> val list \<Rightarrow>
     store \<times> memo \<times> (error + val list)"
  and deepcopy_items ::
  "(store \<Rightarrow> memo \<Rightarrow> addr \<Rightarrow> store \<times> memo \<times> (error + addr)) \<Rightarrow> store \<Rightarrow> memo \<Rightarrow>
     (string \<times> val) list \<Rightarrow> store \<times> memo \<times> (error + (string \<times> val) list)" where
  "deepcopy_val rec s memo (VRef a) =
     (if a < length (objs s) then
        (case memo a of
           Some y \<Rightarrow> (s, memo, Inr (VRef y))
         | None \<Rightarrow>
             (case rec s memo a of
                (s1, memo1, Inl e) \<Rightarrow> (s1, memo1, Inl e)
              | (s1, memo1, Inr y) \<Rightarrow> (s1, memo1(a \<mapsto> y), Inr (VRef y))))
      else (s, memo, Inr (VRef a)))"
| "deepcopy_val rec s memo (VList xs) =
     (case deepcopy_list rec s memo xs of
        (s1, memo1, Inl e) \<Rightarrow> (s1, memo1, Inl e)
      | (s1, memo1, Inr ys) \<Rightarrow> (s1, memo1, Inr (VList ys)))"
| "deepcopy_val rec s memo (VDict kvs) =
     (case deepcopy_items rec s memo kvs of
        (s1, memo1, Inl e) \<Rightarrow> (s1, memo1, Inl e)
      | (s1, memo1, Inr kvs') \<Rightarrow> (s1, memo1, Inr (VDict kvs')))"
| "deepcopy_val rec s memo v = (s, memo, Inr v)"
| "deepcopy_list rec s memo [] = (s, memo, Inr [])"
| "deepcopy_list rec s memo (x # xs) =
     (case deepcopy_val rec s memo x of
        (s1, memo1, Inl e) \<Rightarrow> (s1, memo1, Inl e)
      | (s1, memo1, Inr y) \<Rightarrow>
          (case deepcopy_list rec s1 memo1 xs of
             (s2, memo2, Inl e) \<Rightarrow> (s2, memo2, Inl e)
           | (s2, memo2, Inr ys) \<Rightarrow> (s2, memo2, Inr (y # ys))))"
| "deepcopy_items rec s memo [] = (s, memo, Inr [])"
| "deepcopy_items rec s memo ((k, v) # kvs) =
     (case deepcopy_val rec s memo v of
        (s1, memo1, Inl e) \<Rightarrow> (s1, memo1, Inl e)
      | (s1, memo1, Inr y) \<Rightarrow>
          (case deepcopy_items rec s1 memo1 kvs of
             (s2, memo2, Inl e) \<Rightarrow> (s2, memo2, Inl e)
           | (s2, memo2, Inr kvs') \<Rightarrow> (s2, memo2, Inr ((k, y) # kvs'))))"

definition Expression_deepcopy ::
  "(store \<Rightarrow> memo \<Rightarrow> addr \<Rightarrow> store \<times> memo \<times> (error + addr)) \<Rightarrow> store \<Rightarrow> memo \<Rightarrow> addr \<Rightarrow>
     store \<times> memo \<times> (error + addr)" where
  "Expression_deepcopy rec s memo self =
     (case deref s self of
        None \<Rightarrow> (s, memo, Inl (AttributeError ''__deepcopy__''))
      | Some ob \<Rightarrow>
          (case alloc s \<lparr>klass = klass ob, dict = []\<rparr> of
             (s1, obj) \<Rightarrow>
               (case deepcopy_val rec s1 Map.empty (VDict (dict ob)) of
                  (s2, m, Inl e) \<Rightarrow> (s2, memo(self \<mapsto> obj), Inl e)
                | (s2, m, Inr d) \<Rightarrow>
                    (s2\<lparr>objs := (objs s2)[obj := \<lparr>klass = klass ob, dict = dict_of d\<rparr>]\<rparr>,
                     memo(self \<mapsto> obj), Inr obj))))"

primrec deepcopy :: "nat \<Rightarrow> store \<Rightarrow> memo \<Rightarrow> addr \<Rightarrow> store \<times> memo \<times> (error + addr)" where
  "deepcopy 0 = (\<lambda>s memo self. (s, memo, Inl RecursionError))"
| "deepcopy (Suc n) = Expression_deepcopy (deepcopy n)"

text \<open>\<^verbatim>\<open>Expression.__copy__\<close>: a new object of the same class whose fields are the old
  ones with every \<^verbatim>\<open>Expression\<close> leaf replaced by its own \<^verbatim>\<open>copy.copy\<close>.\<close>

fun copy_leaves ::
  "(store \<Rightarrow> addr \<Rightarrow> addr result) \<Rightarrow> store \<Rightarrow> val list \<Rightarrow> (val list) result" where
  "copy_leaves rec s [] = (s, Inr [])"
| "copy_leaves rec s (x # xs) =
     (case (case (if isinstance_Expression s x then x else VNone) of
              VRef b \<Rightarrow> (case rec s b of (s1, Inl e) \<Rightarrow> (s1, Inl e)
                                        | (s1, Inr y) \<Rightarrow> (s1, Inr (VRef y)))
            | _ \<Rightarrow> (s, Inr x)) of
        (s1, Inl e) \<Rightarrow> (s1, Inl e)
      | (s1, Inr y) \<Rightarrow>
          (case copy_leaves rec s1 xs of
             (s2, Inl e) \<Rightarrow> (s2, Inl e)
           | (s2, Inr ys) \<Rightarrow> (s2, Inr (y # ys))))"

definition Expression_copy ::
  "(store \<Rightarrow> addr \<Rightarrow> addr result) \<Rightarrow> store \<Rightarrow> addr \<Rightarrow> addr result" where
  "Expression_copy rec s self =
     (case deref s self of
        None \<Rightarrow> (s, Inl (AttributeError ''__copy__''))
      | Some ob \<Rightarrow>
          (case alloc s \<lparr>klass = klass ob, dict = []\<rparr> of
             (s1, obj) \<Rightarrow>
               (case copy_leaves rec s1 (flatten (VDict (dict ob))) of
                  (s2, Inl e) \<Rightarrow> (s2, Inl e)
                | (s2, Inr ys) \<Rightarrow>
                    (s2\<lparr>objs := (objs s2)[obj := \<lparr>klass = klass ob,
                        dict = dict_of (fst (unflatten_as (VDict (dict ob)) ys))\<rparr>]\<rparr>,
                     Inr obj))))"

primrec copy :: "nat \<Rightarrow> store \<Rightarrow> addr \<Rightarrow> addr result" where
  "copy 0 = (\<lambda>s self. (s, Inl RecursionError))"
| "copy (Suc n) = Expression_copy (copy n)"

text \<open>\<^verbatim>\<open>Expression.clone\<close>: \<^verbatim>\<open>copy.deepcopy(self)\<close>, which starts from an empty memo, or
  \<^verbatim>\<open>copy.copy(self)\<close>.\<close>

definition clone :: "nat \<Rightarrow> store \<Rightarrow> addr \<Rightarrow> bool \<Rightarrow> val result" where
  "clone n s self deep =
     (if deep then
        (case deepcopy_val (deepcopy n) s Map.empty (VRef self) of
           (s1, m, r) \<Rightarrow> (s1, r))
      else
        (case copy n s self of
           (s1, Inl e) \<Rightarrow> (s1, Inl e)
         | (s1, Inr c) \<Rightarrow> (s1, Inr (VRef c))))"

section \<open>Calling a wrapped object\<close>

text \<open>
  \<^verbatim>\<open>ObjectExpression.__call__\<close> classifies the wrapped object with the predicates of the
  \<^verbatim>\<open>inspect\<close> module. The module is not part of the library: its predicates, and whether a
  value has a \<^verbatim>\<open>__call__\<close> attribute, are parameters. Reading \<^verbatim>\<open>__init__\<close> off a class always
  succeeds; reading \<^verbatim>\<open>__call__\<close> off a value that has none raises \<^verbatim>\<open>AttributeError\<close>.
  The method is \<^verbatim>\<open>__call__(self, *args, **kwargs)\<close>: a keyword argument named \<^verbatim>\<open>self\<close> is a
  \<^verbatim>\<open>TypeError\<close> before the body runs.
\<close>

record inspect =
  isclass :: "val \<Rightarrow> bool"
  isfunction :: "val \<Rightarrow> bool"
  isbuiltin :: "val \<Rightarrow> bool"
  ismethod :: "val \<Rightarrow> bool"
  has_call :: "val \<Rightarrow> bool"

definition ObjectExpression_call ::
  "inspect \<Rightarrow> store \<Rightarrow> addr \<Rightarrow> val list \<Rightarrow> (string \<times> val) list \<Rightarrow> store \<times> (error + addr)" where
  "ObjectExpression_call I s self args kwargs =
     (case deref s self of
        None \<Rightarrow> (s, Inl (AttributeError ''__call__''))
      | Some ob \<Rightarrow>
        if keyword_clash [''self''] kwargs then (s, Inl TypeError)
        else
          (let obj = getfield ob ''_obj'' in
           if isclass I obj then
             new_FunctionCallExpression s obj (VAttr obj ''__init__'') args kwargs
           else if isfunction I obj \<or> (isbuiltin I obj \<and> \<not> ismethod I obj) then
             new_FunctionCallExpression s VNone obj args kwargs
           else if has_call I obj then
             new_FunctionCallExpression s obj (VAttr obj ''__call__'') args kwargs
           else (s, Inl (AttributeError ''__call__''))))"

text \<open>The predicates on the modelled values: classes, functions defined in the host
  language, built-in functions and methods, bound methods, callable instances.\<close>

definition py_inspect :: inspect where
  "py_inspect = \<lparr>
     isclass = (\<lambda>v. case v of VExt k n \<Rightarrow> k = ExtClass | _ \<Rightarrow> False),
     isfunction = (\<lambda>v. case v of VExt k n \<Rightarrow> k = ExtFunction | _ \<Rightarrow> False),
     isbuiltin = (\<lambda>v. case v of VExt k n \<Rightarrow> k = ExtBuiltin | _ \<Rightarrow> False),
     ismethod = (\<lambda>v. case v of VExt k n \<Rightarrow> k = ExtMethod | _ \<Rightarrow> False),
     has_call = (\<lambda>v. case v of VExt k n \<Rightarrow> k \<noteq> ExtInstance | VAttr w n \<Rightarrow> True
                          | VRef a \<Rightarrow> True | _ \<Rightarrow> False)\<rparr>"

section \<open>Sampling a variable through a memo\<close>

text \<open>
  \<^verbatim>\<open>VarExpression.sample\<close>. The memo is a dictionary (or absent); the kind-specific
  \<^verbatim>\<open>_sample\<close>, which draws from the random source and may itself write the memo, is the
  parameter \<open>sample'\<close>; the random source \<open>rng\<close> is always supplied. The membership test is
  on \<^verbatim>\<open>id(self)\<close>, the runtime identity of the object (an integer); the read and the write
  are under \<^verbatim>\<open>self.id\<close>, the declared identity.
\<close>

definition sample ::
  "('r \<Rightarrow> (val \<rightharpoonup> val) option \<Rightarrow> val \<times> 'r \<times> (val \<rightharpoonup> val) option) \<Rightarrow> store \<Rightarrow> addr \<Rightarrow> 'r \<Rightarrow>
     (val \<rightharpoonup> val) option \<Rightarrow> (error + val) \<times> 'r \<times> (val \<rightharpoonup> val) option" where
  "sample sample' s self rng memo =
     (case deref s self of
        None \<Rightarrow> (Inl (AttributeError ''sample''), rng, memo)
      | Some ob \<Rightarrow>
        (case (case memo of Some m \<Rightarrow> if VInt (int self) \<in> dom m then Some m else None
                | None \<Rightarrow> None) of
           Some m \<Rightarrow>
             (case m (id_of ob) of
                Some v \<Rightarrow> (Inr v, rng, memo)
              | None \<Rightarrow> (Inl (KeyError (id_of ob)), rng, memo))
         | None \<Rightarrow>
             (case sample' rng memo of
                (v, rng', memo') \<Rightarrow>
                  (Inr v, rng', (case memo' of Some m' \<Rightarrow> Some (m'(id_of ob \<mapsto> v)) | None \<Rightarrow> None)))))"

text \<open>A stand-in for a random draw: the source is a counter, and each draw returns its
  current value and advances it.\<close>

definition counting_sample :: "nat \<Rightarrow> (val \<rightharpoonup> val) option \<Rightarrow> val \<times> nat \<times> (val \<rightharpoonup> val) option" where
  "counting_sample rng memo = (VInt (int rng), Suc rng, memo)"

section \<open>Example stores\<close>

text \<open>\<^verbatim>\<open>Int(0, 10)\<close> and \<^verbatim>\<open>Float(0.0, 1.0)\<close>, each the first variable constructed (identity
  \<^verbatim>\<open>"0"\<close>, at address 0).\<close>

definition int_0_10 :: store where
  "int_0_10 = fst (new_Int empty_store (VInt 0) (VInt 10) None)"

definition float_0_1 :: store where
  "float_0_1 = fst (new_Float empty_store (VFloat 0) (VFloat 1) None)"

definition int_0_10_obj :: pyobj where
  "int_0_10_obj = \<lparr>klass = Int_cls,
     dict = [(''_name'', VNone), (''var_id'', VInt 0), (''_low'', VInt 0), (''_high'', VInt 10),
             (''_dist'', VExt ExtInstance ''scipy.stats.randint'')]\<rparr>"

definition float_0_1_obj :: pyobj where
  "float_0_1_obj = \<lparr>klass = Float_cls,
     dict = [(''_name'', VNone), (''var_id'', VInt 0), (''_low'', VFloat 0), (''_high'', VFloat 1),
             (''_dist'', VExt ExtInstance ''scipy.stats.uniform'')]\<rparr>"

text \<open>\<^verbatim>\<open>ObjectExpression(w)\<close> as the only object of a store.\<close>

definition wrapped :: "val \<Rightarrow> store" where
  "wrapped w = fst (new_ObjectExpression empty_store w)"


definition two_ints :: store where
  "two_ints =
     (case new_Int empty_store (VInt 0) (VInt 10) None of
        (s1, a) \<Rightarrow> (case new_Int s1 (VInt 0) (VInt 5) None of
        (s2, b) \<Rightarrow> setattr (setattr s2 a ''value'' (VInt 1)) b ''value'' (VInt 1)))"

text \<open>\<^verbatim>\<open>ObjectExpression(5) + ObjectExpression(3)\<close>, and \<^verbatim>\<open>3 + ObjectExpression(5)\<close>, which the
  host hands to \<^verbatim>\<open>ObjectExpression(5).__radd__(3)\<close>.\<close>

definition five_plus_three :: "store \<times> addr" where
  "five_plus_three =
     (case new_ObjectExpression empty_store (VInt 5) of
        (s1, a) \<Rightarrow> (case new_ObjectExpression s1 (VInt 3) of
        (s2, b) \<Rightarrow> Expression_add s2 (VRef a) (VRef b)))"

definition three_plus_five_reflected :: "store \<times> addr" where
  "three_plus_five_reflected =
     (case new_ObjectExpression empty_store (VInt 5) of
        (s1, a) \<Rightarrow> Expression_radd s1 (VRef a) (VInt 3))"

text \<open>\<^verbatim>\<open>x = Int(0, 10, name="x")\<close> and \<^verbatim>\<open>L = List([5, x], k=1)\<close> (identity \<^verbatim>\<open>"1"\<close>);
  \<^verbatim>\<open>x\<close>, \<^verbatim>\<open>y = Int(0, 10, name="y")\<close> and \<^verbatim>\<open>M = List([x, y], k=3, replace=True)\<close>
  (identity \<^verbatim>\<open>"2"\<close>).\<close>

definition list_5_x :: "store \<times> addr" where
  "list_5_x =
     (case new_Int empty_store (VInt 0) (VInt 10) (Some ''x'') of
        (s1, x) \<Rightarrow> new_List s1 [VInt 5, VRef x] (VInt 1) False False None)"

definition list_x_y :: "store \<times> addr" where
  "list_x_y =
     (case new_Int empty_store (VInt 0) (VInt 10) (Some ''x'') of
        (s1, x) \<Rightarrow> (case new_Int s1 (VInt 0) (VInt 10) (Some ''y'') of
        (s2, y) \<Rightarrow> new_List s2 [VRef x, VRef y] (VInt 3) True False None))"

text \<open>A choice for \<^verbatim>\<open>M\<close>: three indices into its two candidates, with \<^verbatim>\<open>x\<close> and \<^verbatim>\<open>y\<close> bound.\<close>

definition choice_0_0_1 :: choice where
  "choice_0_0_1 = [VStr ''2'' \<mapsto> VList [VInt 0, VInt 0, VInt 1], VStr ''x'' \<mapsto> VInt 3,
                   VStr ''y'' \<mapsto> VInt 4]"

text \<open>\<^verbatim>\<open>a = Int(0, 1, name="x")\<close>, \<^verbatim>\<open>b = Int(0, 5, name="x")\<close> and the node \<^verbatim>\<open>a + b\<close>.\<close>

definition same_identity_sum :: "store \<times> addr" where
  "same_identity_sum =
     (case new_Int empty_store (VInt 0) (VInt 1) (Some ''x'') of
        (s1, a) \<Rightarrow> (case new_Int s1 (VInt 0) (VInt 5) (Some ''x'') of
        (s2, b) \<Rightarrow> Expression_add s2 (VRef a) (VRef b)))"



text \<open>\<^verbatim>\<open>v = Int(0, 10)\<close> and the graph \<^verbatim>\<open>(v + 1) * v\<close>, in which \<^verbatim>\<open>v\<close> is reachable as
  \<^verbatim>\<open>left.left\<close> and as \<^verbatim>\<open>right\<close>; and \<^verbatim>\<open>v + v\<close>.\<close>

definition shared_variable :: "store \<times> addr" where
  "shared_variable =
     (case new_Int empty_store (VInt 0) (VInt 10) None of
        (s1, v) \<Rightarrow> (case Expression_add s1 (VRef v) (VInt 1) of
        (s2, b) \<Rightarrow> Expression_mul s2 (VRef b) (VRef v)))"

definition v_plus_v :: "store \<times> addr" where
  "v_plus_v =
     (case new_Int empty_store (VInt 0) (VInt 10) None of
        (s1, v) \<Rightarrow> Expression_add s1 (VRef v) (VRef v))"


section \<open>Basic facts about the store\<close>

lemma map_of_set_entry: "map_of (set_entry k v kvs) k = Some v"
  by (induction kvs) auto

lemma getfield_setattr:
  "deref s a = Some ob \<Longrightarrow> getfield (objs (setattr s a k v) ! a) k = v"
  by (auto simp: setattr_def deref_def getfield_def map_of_set_entry split: if_splits)

lemma py_gt_num:
  "num_of a = Some x \<Longrightarrow> num_of b = Some y \<Longrightarrow> py_gt s a b = (s, Inr (VBool (x > y)))"
  by (cases a; cases b) (auto simp: py_gt_def py_compare_def isinstance_Expression_def)

lemma py_gt_deref:
  "deref s x = Some ob \<Longrightarrow> deref (fst (py_gt s a b)) x = Some ob"
  by (auto simp: py_gt_def py_compare_def new_BinaryExpression_def alloc_def deref_def nth_append
      split: prod.splits option.splits val.splits if_splits)

lemma str_int_0: "str_int 0 = ''0''"
  by code_simp

lemma int_0_10_deref: "deref int_0_10 0 = Some int_0_10_obj"
  by (simp add: int_0_10_def int_0_10_obj_def new_Int_def alloc_def empty_store_def deref_def
      VarExpression_fields_def)

lemma float_0_1_deref: "deref float_0_1 0 = Some float_0_1_obj"
  by (simp add: float_0_1_def float_0_1_obj_def new_Float_def alloc_def empty_store_def deref_def
      VarExpression_fields_def)

lemma int_0_10_obj_fields:
  "klass int_0_10_obj = Int_cls" "getfield int_0_10_obj ''_low'' = VInt 0"
  "getfield int_0_10_obj ''_high'' = VInt 10" "id_of int_0_10_obj = VStr ''0''"
  "getfield int_0_10_obj ''value'' = VNone"
  by (simp_all add: int_0_10_obj_def getfield_def id_of_def str_int_0)

lemma float_0_1_obj_fields:
  "klass float_0_1_obj = Float_cls" "getfield float_0_1_obj ''_low'' = VFloat 0"
  "getfield float_0_1_obj ''_high'' = VFloat 1" "id_of float_0_1_obj = VStr ''0''"
  "getfield float_0_1_obj ''value'' = VNone"
  by (simp_all add: float_0_1_obj_def getfield_def id_of_def str_int_0)

section \<open>Freezing a bounded integer\<close>

text \<open>
  Claim C6. For an \<^verbatim>\<open>Int\<close> variable whose two bounds are literal integers and whose
  identity is bound to an integer in the choice mapping, \<^verbatim>\<open>freeze\<close> raises the
  \<^verbatim>\<open>ValueError\<close> naming the variable, the range and the choice exactly when the choice lies
  outside \<open>[low, high]\<close>; it raises nothing exactly when the choice is in range, and then the
  only effect is that the variable's \<^verbatim>\<open>value\<close> is the chosen integer.
\<close>

theorem Int_freeze_literal_bounds:
  assumes "deref s self = Some ob" and "klass ob = Int_cls"
    and "getfield ob ''_low'' = VInt lo" and "getfield ob ''_high'' = VInt hi"
    and "choice (id_of ob) = Some (VInt c)"
  shows "(snd (Int_freeze s self choice) = Some (ValueError self (VInt lo) (VInt hi) (VInt c))
            \<longleftrightarrow> c < lo \<or> hi < c)
       \<and> (snd (Int_freeze s self choice) = None \<longleftrightarrow> lo \<le> c \<and> c \<le> hi)
       \<and> (lo \<le> c \<and> c \<le> hi \<longrightarrow>
            Int_freeze s self choice = (setattr s self ''value'' (VInt c), None)
            \<and> getfield (objs (fst (Int_freeze s self choice)) ! self) ''value'' = VInt c)"
  using assms
  by (auto simp: Int_freeze_def bounded_freeze_def isinstance_VarExpression_def py_gt_num
      getfield_setattr Let_def)

theorem Int_freeze_literal_bounds_witness:
  "snd (Int_freeze int_0_10 0 [VStr ''0'' \<mapsto> VInt 11])
     = Some (ValueError 0 (VInt 0) (VInt 10) (VInt 11))
   \<and> snd (Int_freeze int_0_10 0 [VStr ''0'' \<mapsto> VInt (- 1)])
     = Some (ValueError 0 (VInt 0) (VInt 10) (VInt (- 1)))
   \<and> getfield (objs (fst (Int_freeze int_0_10 0 [VStr ''0'' \<mapsto> VInt 7])) ! 0) ''value'' = VInt 7"
proof -
  note d = int_0_10_deref
  note f = int_0_10_obj_fields
  have c: "[VStr ''0'' \<mapsto> VInt x] (id_of int_0_10_obj) = Some (VInt x)" for x
    by (simp add: f)
  show ?thesis
    using Int_freeze_literal_bounds [where choice = "[VStr ''0'' \<mapsto> VInt 11]", OF d f(1-3) c]
      Int_freeze_literal_bounds [where choice = "[VStr ''0'' \<mapsto> VInt (- 1)]", OF d f(1-3) c]
      Int_freeze_literal_bounds [where choice = "[VStr ''0'' \<mapsto> VInt 7]", OF d f(1-3) c]
    by (simp add: getfield_setattr [OF d])
qed

section \<open>A rejected choice leaves the variable as it was\<close>

lemma bounded_freeze_raise_deref:
  assumes "deref s self = Some ob" and "snd (bounded_freeze s self choice) = Some e"
  shows "deref (fst (bounded_freeze s self choice)) self = Some ob"
proof (cases "choice (id_of ob)")
  case None
  with assms show ?thesis by (simp add: bounded_freeze_def)
next
  case (Some c)
  define low where "low = getfield ob ''_low''"
  define high where "high = getfield ob ''_high''"
  show ?thesis
  proof (cases "isinstance_VarExpression s low \<or> isinstance_VarExpression s high")
    case True
    with assms Some show ?thesis
      by (auto simp: bounded_freeze_def low_def high_def)
  next
    case False
    obtain s1 r1 where g1: "py_gt s low c = (s1, r1)" by (cases "py_gt s low c")
    have d1: "deref s1 self = Some ob"
      using py_gt_deref [OF assms(1), of low c] g1 by simp
    obtain s2 r2 where g2: "py_gt s1 c high = (s2, r2)" by (cases "py_gt s1 c high")
    have d2: "deref s2 self = Some ob"
      using py_gt_deref [OF d1, of c high] g2 by simp
    from assms Some False g1 g2 d1 d2 show ?thesis
      by (auto simp: bounded_freeze_def low_def high_def Let_def split: sum.splits if_splits)
  qed
qed

lemma int_0_10_freeze_11:
  "Int_freeze int_0_10 0 [VStr ''0'' \<mapsto> VInt 11]
     = (int_0_10, Some (ValueError 0 (VInt 0) (VInt 10) (VInt 11)))"
  using int_0_10_deref int_0_10_obj_fields
  by (simp add: Int_freeze_def bounded_freeze_def isinstance_VarExpression_def py_gt_def
      py_compare_def isinstance_Expression_def)

lemma float_0_1_freeze_3_2:
  "Float_freeze float_0_1 0 [VStr ''0'' \<mapsto> VFloat (3 / 2)]
     = (float_0_1, Some (ValueError 0 (VFloat 0) (VFloat 1) (VFloat (3 / 2))))"
  using float_0_1_deref float_0_1_obj_fields
  by (simp add: Float_freeze_def bounded_freeze_def isinstance_VarExpression_def py_gt_def
      py_compare_def isinstance_Expression_def)

text \<open>
  Claim C10. When \<^verbatim>\<open>Int.freeze\<close> or \<^verbatim>\<open>Float.freeze\<close> raises the invalid-choice
  \<^verbatim>\<open>ValueError\<close>, the variable object is, after the call, exactly what it was before: the
  exception is raised before the assignment to \<^verbatim>\<open>value\<close>.
\<close>

theorem failed_freeze_keeps_variable:
  assumes "deref s self = Some ob"
  shows "(snd (Int_freeze s self choice) = Some (ValueError v lo hi c) \<longrightarrow>
            deref (fst (Int_freeze s self choice)) self = Some ob)
       \<and> (snd (Float_freeze s self choice) = Some (ValueError v lo hi c) \<longrightarrow>
            deref (fst (Float_freeze s self choice)) self = Some ob)"
  using bounded_freeze_raise_deref [OF assms]
  by (simp add: Int_freeze_def Float_freeze_def)

theorem failed_freeze_keeps_variable_witness:
  "snd (Int_freeze int_0_10 0 [VStr ''0'' \<mapsto> VInt 11])
     = Some (ValueError 0 (VInt 0) (VInt 10) (VInt 11))
   \<and> getfield (the (deref (fst (Int_freeze int_0_10 0 [VStr ''0'' \<mapsto> VInt 11])) 0)) ''value''
     = VNone
   \<and> snd (Float_freeze float_0_1 0 [VStr ''0'' \<mapsto> VFloat (3 / 2)])
     = Some (ValueError 0 (VFloat 0) (VFloat 1) (VFloat (3 / 2)))
   \<and> getfield (the (deref (fst (Float_freeze float_0_1 0 [VStr ''0'' \<mapsto> VFloat (3 / 2)])) 0))
       ''value'' = VNone"
  using failed_freeze_keeps_variable [OF int_0_10_deref,
      where choice = "[VStr ''0'' \<mapsto> VInt 11]" and v = 0 and lo = "VInt 0" and hi = "VInt 10"
        and c = "VInt 11"]
    failed_freeze_keeps_variable [OF float_0_1_deref,
      where choice = "[VStr ''0'' \<mapsto> VFloat (3 / 2)]" and v = 0 and lo = "VFloat 0"
        and hi = "VFloat 1" and c = "VFloat (3 / 2)"]
    int_0_10_freeze_11 float_0_1_freeze_3_2
  by (simp add: int_0_10_obj_fields float_0_1_obj_fields)

section \<open>Calling a wrapped object\<close>

lemma wrapped_deref: "deref (wrapped w) 0 = Some \<lparr>klass = ObjectExpression, dict = [(''_obj'', w)]\<rparr>"
  by (simp add: wrapped_def new_ObjectExpression_def alloc_def empty_store_def deref_def)

text \<open>
  Claim C9, as stated, fails on the code: calling \<^verbatim>\<open>ObjectExpression(f)\<close>, \<open>f\<close> a function,
  with the keyword argument \<^verbatim>\<open>function="linear"\<close> returns no node. The keyword collides with
  the second positional parameter of \<^verbatim>\<open>FunctionCallExpression.__init__\<close> and the call raises
  \<^verbatim>\<open>TypeError\<close>.
\<close>

theorem ObjectExpression_call_keyword_counterexample:
  "ObjectExpression_call py_inspect (wrapped (VExt ExtFunction ''f'')) 0 []
     [(''function'', VStr ''linear'')]
   = (wrapped (VExt ExtFunction ''f''), Inl TypeError)"
  using wrapped_deref [of "VExt ExtFunction ''f''"]
  by (simp add: ObjectExpression_call_def new_FunctionCallExpression_def keyword_clash_def
      getfield_def py_inspect_def)



section \<open>Sampling through a memo\<close>

text \<open>
  Claim C3, evaluated on the code. \<^verbatim>\<open>v = Int(0, 10)\<close> is sampled twice with one shared memo,
  empty at first. The first call draws and stores the draw under the identity \<^verbatim>\<open>"0"\<close>; the
  second call tests the memo for \<^verbatim>\<open>id(v)\<close>, finds nothing, and draws again.
\<close>

theorem sample_memo_draws_again:
  "sample counting_sample int_0_10 0 (0::nat) (Some Map.empty)
     = (Inr (VInt 0), 1, Some [VStr ''0'' \<mapsto> VInt 0])
   \<and> sample counting_sample int_0_10 0 (1::nat) (Some [VStr ''0'' \<mapsto> VInt 0])
     = (Inr (VInt 1), 2, Some [VStr ''0'' \<mapsto> VInt 1])"
  by (simp add: sample_def int_0_10_deref int_0_10_obj_fields counting_sample_def)

section \<open>Evaluating a variable that was never frozen\<close>

text \<open>
  Claim C1, as stated, fails on the code: \<^verbatim>\<open>Int(0, 10).evaluate()\<close> without a prior
  \<^verbatim>\<open>freeze\<close> returns \<^verbatim>\<open>None\<close>; it raises nothing.
\<close>

theorem evaluate_unfrozen_counterexample:
  "evaluate py_host 1 int_0_10 0 = (int_0_10, Inr VNone)"
  by (simp add: evaluate_step_def int_0_10_deref int_0_10_obj_fields is_VarExpression_cls_def
      VarExpression_evaluate_def isinstance_Expression_def)

text \<open>
  Claim C1, amended. For every variable (\<^verbatim>\<open>List\<close>, \<^verbatim>\<open>Int\<close> or \<^verbatim>\<open>Float\<close>) whose instance
  holds no \<^verbatim>\<open>value\<close> yet, \<^verbatim>\<open>evaluate()\<close> returns the class default \<^verbatim>\<open>None\<close> and leaves the
  store as it is, whatever the host and for every recursion bound of at least one call.
\<close>

theorem evaluate_unfrozen_returns_None:
  assumes "deref s self = Some ob" and "is_VarExpression_cls (klass ob)"
    and "map_of (dict ob) ''value'' = None"
  shows "evaluate H (Suc n) s self = (s, Inr VNone)"
  using assms
  by (simp add: evaluate_step_def VarExpression_evaluate_def getfield_def isinstance_Expression_def)

theorem evaluate_unfrozen_returns_None_witness:
  "evaluate py_host 3 int_0_10 0 = (int_0_10, Inr VNone)"
proof -
  have "map_of (dict int_0_10_obj) ''value'' = None"
    by (simp add: int_0_10_obj_def)
  moreover have "is_VarExpression_cls (klass int_0_10_obj)"
    by (simp add: int_0_10_obj_fields is_VarExpression_cls_def)
  ultimately show ?thesis
    using evaluate_unfrozen_returns_None [OF int_0_10_deref, of py_host 2]
    by (simp add: numeral_3_eq_3)
qed

section \<open>Evaluating a binary node\<close>

lemma flatten_leaf: "\<not> is_nested v \<Longrightarrow> flatten v = [v]"
  by (cases v) auto

lemma unflatten_leaf: "\<not> is_nested v \<Longrightarrow> unflatten_as v (y # ys) = (y, ys)"
  by (cases v) auto

lemma sorted_items_binary:
  "sorted_items [(''left'', l), (''right'', r), (''operator'', o')]
     = [(''left'', l), (''operator'', o'), (''right'', r)]"
  by (simp add: sorted_items_def)

lemma five_plus_three_eq:
  "five_plus_three =
     (\<lparr>objs = [\<lparr>klass = ObjectExpression, dict = [(''_obj'', VInt 5)]\<rparr>,
               \<lparr>klass = ObjectExpression, dict = [(''_obj'', VInt 3)]\<rparr>,
               \<lparr>klass = BinaryExpression,
                  dict = [(''left'', VRef 0), (''right'', VRef 1), (''operator'', VStr ''+'')]\<rparr>],
       var_counter = 0\<rparr>, 2)"
  by (simp add: five_plus_three_def new_ObjectExpression_def alloc_def empty_store_def
      Expression_add_def new_BinaryExpression_def BIN_OPS_ATTR_2_SYNTAX_def BIN_OPS_SYNTAX_2_ATTR_def)

lemma three_plus_five_reflected_eq:
  "three_plus_five_reflected =
     (\<lparr>objs = [\<lparr>klass = ObjectExpression, dict = [(''_obj'', VInt 5)]\<rparr>,
               \<lparr>klass = BinaryExpression,
                  dict = [(''left'', VInt 3), (''right'', VRef 0), (''operator'', VStr ''+'')]\<rparr>],
       var_counter = 0\<rparr>, 1)"
  by (simp add: three_plus_five_reflected_def new_ObjectExpression_def alloc_def empty_store_def
      Expression_radd_def new_BinaryExpression_def BIN_OPS_ATTR_2_SYNTAX_def BIN_OPS_SYNTAX_2_ATTR_def)

lemma map_of_add: "map_of BIN_OPS_SYNTAX_2_ATTR ''+'' = Some ''__add__''"
  by (simp add: BIN_OPS_SYNTAX_2_ATTR_def)

lemma evaluate_ObjectExpression_leaf:
  assumes "deref s a = Some \<lparr>klass = ObjectExpression, dict = [(''_obj'', w)]\<rparr>"
    and "\<not> is_nested w" and "\<not> isinstance_Expression s w"
  shows "evaluate H (Suc n) s a = (s, Inr w)"
proof -
  have fl: "flatten w = [w]" using assms(2) by (rule flatten_leaf)
  have ea: "evaluate_aux (evaluate H n) s w = (s, Inr w)"
    using assms(3) by (cases w) (auto simp: evaluate_aux_def isinstance_Expression_def)
  have "objs s ! a = \<lparr>klass = ObjectExpression, dict = [(''_obj'', w)]\<rparr>" and "a < length (objs s)"
    using assms(1) by (auto simp: deref_def split: if_splits)
  then have upd: "s\<lparr>objs := (objs s)[a := \<lparr>klass = ObjectExpression, dict = [(''_obj'', w)]\<rparr>]\<rparr> = s"
    by (metis list_update_id store.surjective store.update_convs(1))
  show ?thesis
    using assms(1,2) fl ea upd
    by (simp add: evaluate_step_def is_VarExpression_cls_def evaluate_children_def
        map_structure_evaluate_def sorted_items_def unflatten_leaf node_operation_def fld_def)
qed

lemma five_plus_three_value:
  "snd (evaluate py_host 2 (fst five_plus_three) (snd five_plus_three)) = Inr (VInt 8)"
  unfolding five_plus_three_eq
  by (simp add: numeral_2_eq_2 evaluate_step_def deref_def is_VarExpression_cls_def
      evaluate_children_def map_structure_evaluate_def sorted_items_def evaluate_aux_def
      node_operation_def fld_def BIN_OPS_SYNTAX_2_ATTR_def py_host_def int_method_def int_operand_def)

lemma three_plus_five_value:
  "snd (evaluate py_host 2 (fst three_plus_five_reflected) (snd three_plus_five_reflected)) = Inr (VInt 8)"
  unfolding three_plus_five_reflected_eq
  by (simp add: numeral_2_eq_2 evaluate_step_def deref_def is_VarExpression_cls_def
      evaluate_children_def map_structure_evaluate_def sorted_items_def evaluate_aux_def
      node_operation_def fld_def BIN_OPS_SYNTAX_2_ATTR_def py_host_def int_method_def int_operand_def)

lemma flatten_VDict: "flatten (VDict kvs) = concat (map flatten (map snd (sorted_items kvs)))"
  by (simp add: case_prod_unfold comp_def)

lemma unflatten_list_exact:
  assumes elem: "\<And>v ys rest. v \<in> set vs \<Longrightarrow> length ys = length (flatten v) \<Longrightarrow>
                   unflatten_as v (ys @ rest) = (fst (unflatten_as v ys), rest)"
  shows "length ys = length (concat (map flatten vs)) \<Longrightarrow>
           unflatten_list vs (ys @ rest) = (fst (unflatten_list vs ys), rest)"
  using elem
proof (induction vs arbitrary: ys rest)
  case Nil
  then show ?case by simp
next
  case (Cons x xs)
  let ?k = "length (flatten x)"
  let ?a = "take ?k ys" and ?b = "drop ?k ys"
  from Cons.prems(1) have la: "length ?a = length (flatten x)" by simp
  from Cons.prems(1) have lb: "length ?b = length (concat (map flatten xs))" by simp
  have h1: "unflatten_as x (?a @ r) = (fst (unflatten_as x ?a), r)" for r
    using Cons.prems(2) [of x ?a r] la by simp
  have h2: "unflatten_list xs (?b @ r) = (fst (unflatten_list xs ?b), r)" for r
    using Cons.IH [OF lb, of r] Cons.prems(2) by simp
  have e1: "unflatten_as x (ys @ rest) = (fst (unflatten_as x ?a), ?b @ rest)"
    using h1 [of "?b @ rest"] by (simp flip: append_assoc)
  have e2: "unflatten_as x ys = (fst (unflatten_as x ?a), ?b)"
    using h1 [of ?b] by simp
  have e3: "unflatten_list xs ?b = (fst (unflatten_list xs ?b), [])"
    using h2 [of "[]"] by simp
  show ?case
    by (simp add: e1 e2 h2) (subst e3, simp)
qed

lemma unflatten_as_exact:
  "length ys = length (flatten v) \<Longrightarrow> unflatten_as v (ys @ rest) = (fst (unflatten_as v ys), rest)"
proof (induction v arbitrary: ys rest)
  case (VList xs)
  then have l: "length ys = length (concat (map flatten xs))" by simp
  have "unflatten_list xs (ys @ rest) = (fst (unflatten_list xs ys), rest)"
    by (rule unflatten_list_exact [OF VList.IH l])
  then show ?case by (simp add: case_prod_unfold)
next
  case (VDict kvs)
  let ?vs = "map snd (sorted_items kvs)"
  from VDict.prems have l: "length ys = length (concat (map flatten ?vs))"
    by (simp only: flatten_VDict)
  have elem: "\<And>v ys rest. v \<in> set ?vs \<Longrightarrow> length ys = length (flatten v) \<Longrightarrow>
                unflatten_as v (ys @ rest) = (fst (unflatten_as v ys), rest)"
  proof -
    fix v :: val and ys rest :: "val list"
    assume "v \<in> set ?vs" and len: "length ys = length (flatten v)"
    then obtain k where "(k, v) \<in> set kvs" by auto
    then show "unflatten_as v (ys @ rest) = (fst (unflatten_as v ys), rest)"
      using VDict.IH [of "(k, v)" v ys rest] len by simp
  qed
  have "unflatten_list ?vs (ys @ rest) = (fst (unflatten_list ?vs ys), rest)"
    by (rule unflatten_list_exact [OF elem l])
  then show ?case by (simp add: case_prod_unfold)
qed (auto simp: length_Suc_conv)

lemma evaluate_leaves_append:
  "evaluate_leaves rec s (xs @ ys) =
     (case evaluate_leaves rec s xs of
        (s1, Inl e) \<Rightarrow> (s1, Inl e)
      | (s1, Inr as) \<Rightarrow>
          (case evaluate_leaves rec s1 ys of
             (s2, Inl e) \<Rightarrow> (s2, Inl e)
           | (s2, Inr bs) \<Rightarrow> (s2, Inr (as @ bs))))"
  by (induction xs arbitrary: s) (auto split: prod.splits sum.splits)

lemma evaluate_leaves_length:
  "evaluate_leaves rec s xs = (s', Inr ys) \<Longrightarrow> length ys = length xs"
  by (induction xs arbitrary: s ys) (auto split: prod.splits sum.splits)

lemma BinaryExpression_evaluate_children:
  assumes d: "deref s self = Some ob"
    and dict: "dict ob = [(''left'', l), (''right'', r), (''operator'', VStr symb)]"
    and el: "map_structure_evaluate rec s l = (s1, Inr lv)"
    and er: "map_structure_evaluate rec s1 r = (s2, Inr rv)"
  shows "evaluate_children rec s self =
           (s2\<lparr>objs := (objs s2)[self := ob\<lparr>dict := [(''left'', lv), (''right'', rv),
                                                     (''operator'', VStr symb)]\<rparr>]\<rparr>,
            Inr [(''left'', lv), (''right'', rv), (''operator'', VStr symb)])"
proof -
  from el obtain yl where yl: "evaluate_leaves rec s (flatten l) = (s1, Inr yl)"
    and lv: "lv = fst (unflatten_as l yl)"
    by (auto simp: map_structure_evaluate_def split: prod.splits sum.splits)
  from er obtain yr where yr: "evaluate_leaves rec s1 (flatten r) = (s2, Inr yr)"
    and rv: "rv = fst (unflatten_as r yr)"
    by (auto simp: map_structure_evaluate_def split: prod.splits sum.splits)
  have ll: "length yl = length (flatten l)" using evaluate_leaves_length [OF yl] .
  have lr: "length yr = length (flatten r)" using evaluate_leaves_length [OF yr] .
  have fl: "flatten (VDict (dict ob)) = flatten l @ [VStr symb] @ flatten r"
    by (simp add: dict sorted_items_binary)
  have ev: "evaluate_leaves rec s (flatten (VDict (dict ob))) = (s2, Inr (yl @ VStr symb # yr))"
    unfolding fl evaluate_leaves_append yl
    by (simp add: evaluate_aux_def yr)
  have u1: "unflatten_as l (yl @ VStr symb # yr) = (lv, VStr symb # yr)"
    using unflatten_as_exact [OF ll, of "VStr symb # yr"] lv by simp
  have u2: "unflatten_as r yr = (rv, [])"
    using unflatten_as_exact [OF lr, of "[]"] rv by simp
  have un: "unflatten_as (VDict (dict ob)) (yl @ VStr symb # yr)
              = (VDict [(''left'', lv), (''right'', rv), (''operator'', VStr symb)], [])"
    by (simp add: dict sorted_items_binary u1 u2)
  have m: "map_structure_evaluate rec s (VDict (dict ob))
             = (s2, Inr (VDict [(''left'', lv), (''right'', rv), (''operator'', VStr symb)]))"
    by (simp only: map_structure_evaluate_def ev un prod.case sum.case fst_conv)
  show ?thesis
    by (simp add: evaluate_children_def d m)
qed

lemma map_structure_evaluate_leaf:
  "\<not> is_nested v \<Longrightarrow> map_structure_evaluate rec s v = evaluate_aux rec s v"
  by (cases "evaluate_aux rec s v")
     (auto simp: map_structure_evaluate_def flatten_leaf unflatten_leaf split: sum.splits)

text \<open>
  Claim C8. A \<^verbatim>\<open>BinaryExpression\<close> resolves its left operand, then its right operand
  (each by \<^verbatim>\<open>evaluate_aux\<close> over the operand's structure), stores the resolved values in its
  own fields, and returns what the operator method found on the resolved left operand
  returns on the resolved right operand: a missing method is an \<^verbatim>\<open>AttributeError\<close>, and
  whatever the method returns (\<^verbatim>\<open>NotImplemented\<close> included) is the result, the right
  operand's methods never being consulted. Both \<^verbatim>\<open>ObjectExpression(5) + ObjectExpression(3)\<close>
  and the reflected \<^verbatim>\<open>3 + ObjectExpression(5)\<close> evaluate to 8.
\<close>

theorem BinaryExpression_evaluate_left_dispatch:
  assumes "deref s self = Some ob" and "klass ob = BinaryExpression"
    and "dict ob = [(''left'', l), (''right'', r), (''operator'', VStr symb)]"
    and "map_of BIN_OPS_SYNTAX_2_ATTR symb = Some attr"
    and "map_structure_evaluate (evaluate H n) s l = (s1, Inr lv)"
    and "map_structure_evaluate (evaluate H n) s1 r = (s2, Inr rv)"
  shows "evaluate H (Suc n) s self =
           (s2\<lparr>objs := (objs s2)[self := ob\<lparr>dict := [(''left'', lv), (''right'', rv),
                                                     (''operator'', VStr symb)]\<rparr>]\<rparr>,
            case host_method H lv attr of
              None \<Rightarrow> Inl (AttributeError attr)
            | Some operator_implementation \<Rightarrow> operator_implementation [rv])
       \<and> snd (evaluate py_host 2 (fst five_plus_three) (snd five_plus_three)) = Inr (VInt 8)
       \<and> snd (evaluate py_host 2 (fst three_plus_five_reflected) (snd three_plus_five_reflected))
           = Inr (VInt 8)"
proof -
  have "evaluate H (Suc n) s self =
           (s2\<lparr>objs := (objs s2)[self := ob\<lparr>dict := [(''left'', lv), (''right'', rv),
                                                     (''operator'', VStr symb)]\<rparr>]\<rparr>,
            case host_method H lv attr of
              None \<Rightarrow> Inl (AttributeError attr)
            | Some operator_implementation \<Rightarrow> operator_implementation [rv])"
    using assms(1,2,4) BinaryExpression_evaluate_children [OF assms(1,3,5,6)]
    by (simp add: evaluate_step_def is_VarExpression_cls_def node_operation_def fld_def
        split: option.splits)
  then show ?thesis
    using five_plus_three_value three_plus_five_value by simp
qed

theorem BinaryExpression_evaluate_left_dispatch_witness:
  "evaluate py_host 2 (fst five_plus_three) 2 =
     ((fst five_plus_three)\<lparr>objs := (objs (fst five_plus_three))
        [2 := \<lparr>klass = BinaryExpression,
               dict = [(''left'', VInt 5), (''right'', VInt 3), (''operator'', VStr ''+'')]\<rparr>]\<rparr>,
      Inr (VInt 8))"
proof -
  let ?s = "fst five_plus_three"
  let ?ob = "\<lparr>klass = BinaryExpression,
               dict = [(''left'', VRef 0), (''right'', VRef 1), (''operator'', VStr ''+'')]\<rparr>"
  have d: "deref ?s 2 = Some ?ob"
    by (simp add: five_plus_three_eq deref_def)
  have d0: "deref ?s 0 = Some \<lparr>klass = ObjectExpression, dict = [(''_obj'', VInt 5)]\<rparr>"
    and d1: "deref ?s 1 = Some \<lparr>klass = ObjectExpression, dict = [(''_obj'', VInt 3)]\<rparr>"
    by (simp_all add: five_plus_three_eq deref_def)
  have len: "length (objs ?s) = 3"
    by (simp add: five_plus_three_eq)
  have l: "map_structure_evaluate (evaluate py_host 1) ?s (VRef 0) = (?s, Inr (VInt 5))"
    using evaluate_ObjectExpression_leaf [OF d0, of py_host 0] len
    by (simp add: map_structure_evaluate_leaf evaluate_aux_def isinstance_Expression_def)
  have r: "map_structure_evaluate (evaluate py_host 1) ?s (VRef 1) = (?s, Inr (VInt 3))"
    using evaluate_ObjectExpression_leaf [OF d1, of py_host 0] len
    by (simp add: map_structure_evaluate_leaf evaluate_aux_def isinstance_Expression_def)
  have "evaluate py_host (Suc 1) ?s 2 =
          (?s\<lparr>objs := (objs ?s)[2 := ?ob\<lparr>dict := [(''left'', VInt 5), (''right'', VInt 3),
                                                  (''operator'', VStr ''+'')]\<rparr>]\<rparr>,
           case host_method py_host (VInt 5) ''__add__'' of
             None \<Rightarrow> Inl (AttributeError ''__add__'')
           | Some operator_implementation \<Rightarrow> operator_implementation [VInt 3])"
    using BinaryExpression_evaluate_left_dispatch [OF d _ _ map_of_add l r] by simp
  then show ?thesis
    by (simp add: numeral_2_eq_2 py_host_def int_method_def int_operand_def)
qed

section \<open>Freezing a categorical variable\<close>

lemma list_5_x_eq:
  "list_5_x =
     (\<lparr>objs =
        [\<lparr>klass = Int_cls,
          dict = [(''_name'', VStr ''x''), (''var_id'', VInt 0), (''_low'', VInt 0),
                  (''_high'', VInt 10), (''_dist'', VExt ExtInstance ''scipy.stats.randint'')]\<rparr>,
         \<lparr>klass = List_cls,
          dict = [(''_name'', VNone), (''var_id'', VInt 1), (''_values'', VList [VInt 5, VRef 0]),
                  (''_k'', VInt 1), (''_replace'', VBool False), (''_invariant'', VBool False)]\<rparr>],
       var_counter = 2\<rparr>, 1)"
  by (simp add: list_5_x_def new_Int_def new_List_def alloc_def empty_store_def VarExpression_fields_def)

lemma list_x_y_eq:
  "list_x_y =
     (\<lparr>objs =
        [\<lparr>klass = Int_cls,
          dict = [(''_name'', VStr ''x''), (''var_id'', VInt 0), (''_low'', VInt 0),
                  (''_high'', VInt 10), (''_dist'', VExt ExtInstance ''scipy.stats.randint'')]\<rparr>,
         \<lparr>klass = Int_cls,
          dict = [(''_name'', VStr ''y''), (''var_id'', VInt 1), (''_low'', VInt 0),
                  (''_high'', VInt 10), (''_dist'', VExt ExtInstance ''scipy.stats.randint'')]\<rparr>,
         \<lparr>klass = List_cls,
          dict = [(''_name'', VNone), (''var_id'', VInt 2), (''_values'', VList [VRef 0, VRef 1]),
                  (''_k'', VInt 3), (''_replace'', VBool True), (''_invariant'', VBool False)]\<rparr>],
       var_counter = 3\<rparr>, 2)"
  by (simp add: list_x_y_def new_Int_def new_List_def alloc_def empty_store_def VarExpression_fields_def)

lemma str_int_1: "str_int 1 = ''1''" by code_simp
lemma str_int_2: "str_int 2 = ''2''" by code_simp

lemma list_5_x_freeze:
  "freeze 2 [VStr ''1'' \<mapsto> VList [VInt 1], VStr ''x'' \<mapsto> VInt 3] (fst list_5_x) (snd list_5_x)
     = (setattr (fst list_5_x) 1 ''value'' (VList [VRef 0]), Some IndexError)"
  unfolding list_5_x_eq
  by (simp add: numeral_2_eq_2 freeze_step_def deref_def List_freeze_def List_freeze_idx_def
      getfield_def id_of_def str_int_1 List_getitem_def list_of_def list_getitem_def int_operand_def
      setattr_def)

lemma list_x_y_freeze:
  "freeze 2 choice_0_0_1 (fst list_x_y) (snd list_x_y)
     = (setattr (setattr (fst list_x_y) 2 ''value'' (VList [VRef 0, VRef 0, VRef 1])) 0 ''value'' (VInt 3),
        None)"
  unfolding list_x_y_eq choice_0_0_1_def
  by (simp add: numeral_2_eq_2 freeze_step_def deref_def List_freeze_def List_freeze_idx_def
      getfield_def id_of_def str_int_2 List_getitem_def list_of_def list_getitem_def int_operand_def
      setattr_def isinstance_Expression_def Int_freeze_def bounded_freeze_def
      isinstance_VarExpression_def py_gt_def py_compare_def is_VarExpression_cls_def Let_def)

lemma list_x_y_after:
  "map_of (dict (objs (setattr (setattr (fst list_x_y) 2 ''value'' (VList [VRef 0, VRef 0, VRef 1])) 0 ''value'' (VInt 3)) ! 1)) ''value'' = None
   \<and> getfield (objs (setattr (setattr (fst list_x_y) 2 ''value'' (VList [VRef 0, VRef 0, VRef 1])) 0 ''value'' (VInt 3)) ! 2) ''value'' = VList [VRef 0, VRef 0, VRef 1]"
  unfolding list_x_y_eq
  by (simp add: setattr_def deref_def getfield_def)

text \<open>
  Claim C2, evaluated on the code. The closing loop of \<^verbatim>\<open>List.freeze\<close> reads
  \<^verbatim>\<open>self.value[i]\<close> with \<open>i\<close> a member of \<open>idx\<close>, an index into the candidates, while
  \<^verbatim>\<open>self.value\<close> holds the chosen candidates by position. With \<^verbatim>\<open>L = List([5, x], k=1)\<close> and
  the valid choice \<^verbatim>\<open>[1]\<close> the value is \<^verbatim>\<open>[x]\<close> and \<^verbatim>\<open>self.value[1]\<close> raises \<^verbatim>\<open>IndexError\<close>.
  With \<^verbatim>\<open>M = List([x, y], k=3, replace=True)\<close> and the valid choice \<^verbatim>\<open>[0, 0, 1]\<close> the value is
  \<^verbatim>\<open>[x, x, y]\<close>, the loop freezes \<^verbatim>\<open>x\<close> three times, and \<^verbatim>\<open>freeze\<close> returns with \<^verbatim>\<open>y\<close>, a
  candidate in the value, never frozen.
\<close>

theorem List_freeze_index_slip:
  "freeze 2 [VStr ''1'' \<mapsto> VList [VInt 1], VStr ''x'' \<mapsto> VInt 3] (fst list_5_x) (snd list_5_x)
     = (setattr (fst list_5_x) 1 ''value'' (VList [VRef 0]), Some IndexError)
   \<and> snd (freeze 2 choice_0_0_1 (fst list_x_y) (snd list_x_y)) = None
   \<and> getfield (objs (fst (freeze 2 choice_0_0_1 (fst list_x_y) (snd list_x_y))) ! 2) ''value''
       = VList [VRef 0, VRef 0, VRef 1]
   \<and> map_of (dict (objs (fst (freeze 2 choice_0_0_1 (fst list_x_y) (snd list_x_y))) ! 1)) ''value''
       = None"
  using list_5_x_freeze list_x_y_freeze list_x_y_after by simp

section \<open>Collecting the variables of a graph\<close>

lemma last_wins_append: "last_wins s (vs @ ws) = last_wins s vs ++ last_wins s ws"
  by (simp add: last_wins_def map_of_append)

lemma last_wins_Nil [simp]: "last_wins s [] = Map.empty"
  by (simp add: last_wins_def)

lemma last_wins_single: "last_wins s [b] = [ident s b \<mapsto> b]"
  by (simp add: last_wins_def)

lemma upd_add: "memo(k \<mapsto> b) ++ m = memo ++ ([k \<mapsto> b] ++ m)"
  by (rule ext) (simp add: map_add_def split: option.splits)

lemma choices_occurrences:
  "choices n s self = map_sum id (last_wins s) (occurrences n s self)"
  "choice_aux n s xs memo = map_sum id (\<lambda>vs. memo ++ last_wins s vs) (occurrences_aux n s xs)"
proof (induction n s self and n s xs memo rule: choices_choice_aux.induct)
  case (1 s self)
  show ?case by simp
next
  case (2 n s self)
  show ?case
  proof (cases "deref s self")
    case None
    then show ?thesis by simp
  next
    case (Some ob)
    show ?thesis
    proof (cases "is_VarExpression_cls (klass ob)")
      case True
      with Some show ?thesis by (simp add: last_wins_single ident_def)
    next
      case nv: False
      show ?thesis
      proof (cases "klass ob = ExpressionCallExpression")
        case True
        show ?thesis
        proof (cases "getfield ob ''expression''")
          case (VRef e)
          note ih1 = "2.IH"(1) [OF Some nv True VRef]
          show ?thesis
          proof (cases "occurrences n s e")
            case (Inl err)
            with Some nv True VRef ih1 show ?thesis by simp
          next
            case (Inr vs)
            then have c: "choices n s e = Inr (last_wins s vs)" using ih1 by simp
            note ih2 = "2.IH"(2) [OF Some nv True VRef c]
            from Some nv True VRef Inr c ih2 show ?thesis
              by (cases "occurrences_aux n s (flatten (getfield ob ''args'') @ flatten (getfield ob ''kwargs''))")
                 (simp_all add: last_wins_append)
          qed
        qed (use Some nv True in simp_all)
      next
        case False
        with Some nv "2.IH"(3) [OF Some nv False] show ?thesis
          by (cases "occurrences_aux n s (flatten (VDict (dict ob)))") simp_all
      qed
    qed
  qed
next
  case (3 n s memo)
  show ?case by simp
next
  case (4 n s x xs memo)
  show ?case
  proof (cases x)
    case (VRef b)
    show ?thesis
    proof (cases "deref s b")
      case None
      with VRef "4.IH"(9) [OF VRef None] show ?thesis by simp
    next
      case (Some ob)
      show ?thesis
      proof (cases "is_VarExpression_cls (klass ob)")
        case True
        note ih = "4.IH"(10) [OF VRef Some True]
        have e: "last_wins s (b # ws) = [id_of ob \<mapsto> b] ++ last_wins s ws" for ws
          using last_wins_append [of s "[b]" ws] Some
          by (simp add: last_wins_single ident_def)
        have lw: "memo(id_of ob \<mapsto> b) ++ last_wins s ws = memo ++ last_wins s (b # ws)" for ws
          unfolding e by (rule upd_add)
        have l: "choice_aux n s (x # xs) memo = choice_aux n s xs (memo(id_of ob \<mapsto> b))"
          using VRef Some True by simp
        have r: "occurrences_aux n s (x # xs) =
                   (case occurrences_aux n s xs of Inl err \<Rightarrow> Inl err | Inr ws \<Rightarrow> Inr (b # ws))"
          using VRef Some True by (simp split: sum.splits)
        show ?thesis
          unfolding l r ih
          by (cases "occurrences_aux n s xs") (simp_all only: sum.case map_sum.simps id_apply lw)
      next
        case False
        note ih3 = "4.IH"(11) [OF VRef Some False]
        show ?thesis
        proof (cases "occurrences n s b")
          case (Inl err)
          with VRef Some False ih3 show ?thesis by simp
        next
          case (Inr vs)
          then have c: "choices n s b = Inr (last_wins s vs)" using ih3 by simp
          note ih4 = "4.IH"(12) [OF VRef Some False c]
          from VRef Some False Inr c ih4 show ?thesis
            by (cases "occurrences_aux n s xs") (simp_all add: last_wins_append)
        qed
      qed
    qed
  qed (use "4.IH" in simp_all)
qed


lemma last_wins_Some:
  "last_wins s vs k = Some v \<Longrightarrow>
     \<exists>pre post. vs = pre @ v # post \<and> ident s v = k \<and> k \<notin> ident s ` set post"
proof (induction vs rule: rev_induct)
  case Nil
  then show ?case by simp
next
  case (snoc w ws)
  show ?case
  proof (cases "ident s w = k")
    case True
    with snoc.prems have "v = w" by (simp add: last_wins_def)
    with True have "ws @ [w] = ws @ v # [] \<and> ident s v = k \<and> k \<notin> ident s ` set []" by simp
    then show ?thesis by blast
  next
    case False
    with snoc.prems have "last_wins s ws k = Some v" by (simp add: last_wins_def)
    from snoc.IH [OF this] obtain pre post
      where "ws = pre @ v # post" "ident s v = k" "k \<notin> ident s ` set post" by blast
    with False have "ws @ [w] = pre @ v # (post @ [w]) \<and> ident s v = k
        \<and> k \<notin> ident s ` set (post @ [w])" by auto
    then show ?thesis by blast
  qed
qed

lemma dom_last_wins: "dom (last_wins s vs) = ident s ` set vs"
  by (simp add: last_wins_def dom_map_of_conv_image_fst image_image)

lemma all_variables_append:
  "all_variables s (vs @ ws) \<longleftrightarrow> all_variables s vs \<and> all_variables s ws"
  by (auto simp: all_variables_def)

lemma all_variables_single:
  "deref s b = Some ob \<Longrightarrow> is_VarExpression_cls (klass ob) \<Longrightarrow> all_variables s [b]"
  by (simp add: all_variables_def isinstance_VarExpression_def)

lemma occurrences_are_variables:
  "occurrences n s self = Inr vs \<Longrightarrow> all_variables s vs"
  "occurrences_aux n s xs = Inr vs \<Longrightarrow> all_variables s vs"
proof (induction n s self and n s xs arbitrary: vs and vs rule: occurrences_occurrences_aux.induct)
  case (1 s self)
  then show ?case by simp
next
  case (2 n s self)
  from "2.prems" obtain ob where d: "deref s self = Some ob"
    by (cases "deref s self") auto
  show ?case
  proof (cases "is_VarExpression_cls (klass ob)")
    case True
    with d "2.prems" have "vs = [self]" by simp
    with d True show ?thesis by (simp add: all_variables_single)
  next
    case nv: False
    show ?thesis
    proof (cases "klass ob = ExpressionCallExpression")
      case True
      from "2.prems" d nv True obtain e where e: "getfield ob ''expression'' = VRef e"
        by (cases "getfield ob ''expression''") auto
      from "2.prems" d nv True e obtain vs1 where v1: "occurrences n s e = Inr vs1"
        by (cases "occurrences n s e") auto
      from "2.prems" d nv True e v1 obtain ws
        where w: "occurrences_aux n s (flatten (getfield ob ''args'') @ flatten (getfield ob ''kwargs'')) = Inr ws"
          and vs: "vs = vs1 @ ws"
        by (cases "occurrences_aux n s (flatten (getfield ob ''args'') @ flatten (getfield ob ''kwargs''))") auto
      have "all_variables s vs1" using "2.IH"(1) [OF d nv True e v1] .
      moreover have "all_variables s ws" using "2.IH"(2) [OF d nv True e v1 w] .
      ultimately show ?thesis using vs by (simp add: all_variables_append)
    next
      case False
      with "2.prems" d nv have "occurrences_aux n s (flatten (VDict (dict ob))) = Inr vs" by simp
      from "2.IH"(3) [OF d nv False this] show ?thesis .
    qed
  qed
next
  case (3 n s)
  then show ?case by (simp add: all_variables_def)
next
  case (4 n s x xs)
  show ?case
  proof (cases x)
    case (VRef b)
    show ?thesis
    proof (cases "deref s b")
      case None
      with VRef "4.prems" have "occurrences_aux n s xs = Inr vs" by simp
      from "4.IH"(9) [OF VRef None this] show ?thesis .
    next
      case (Some ob)
      show ?thesis
      proof (cases "is_VarExpression_cls (klass ob)")
        case True
        from "4.prems" VRef Some True obtain ws
          where w: "occurrences_aux n s xs = Inr ws" and vs: "vs = b # ws"
          by (cases "occurrences_aux n s xs") auto
        have "all_variables s ws"
          by (rule "4.IH"(11) [OF VRef Some _ w]) (simp add: True)
        with vs all_variables_single [OF Some True] all_variables_append [of s "[b]" ws]
        show ?thesis by simp
      next
        case False
        from "4.prems" VRef Some False obtain vs1 where v1: "occurrences n s b = Inr vs1"
          by (cases "occurrences n s b") auto
        from "4.prems" VRef Some False v1 obtain ws
          where w: "occurrences_aux n s xs = Inr ws" and vs: "vs = vs1 @ ws"
          by (cases "occurrences_aux n s xs") auto
        have "all_variables s vs1" using "4.IH"(10) [OF VRef Some False v1] .
        moreover have "all_variables s ws"
          by (rule "4.IH"(11) [OF VRef Some _ w]) (simp add: False v1)
        ultimately show ?thesis using vs by (simp add: all_variables_append)
      qed
    qed
  qed (use "4.prems" "4.IH" in auto)
qed

lemma occurrences_aux_returns:
  assumes "\<And>b. b < a \<Longrightarrow> b < length (objs s) \<Longrightarrow> \<exists>vs. occurrences n s b = Inr vs"
    and "\<forall>b. VRef b \<in> set xs \<longrightarrow> b < a"
  shows "\<exists>vs. occurrences_aux n s xs = Inr vs"
  using assms(2)
proof (induction xs)
  case Nil
  then show ?case by simp
next
  case (Cons x xs)
  then obtain ws where ws: "occurrences_aux n s xs = Inr ws" by auto
  show ?case
  proof (cases x)
    case (VRef b)
    with Cons.prems have ba: "b < a" by simp
    show ?thesis
    proof (cases "deref s b")
      case None
      with VRef ws show ?thesis by simp
    next
      case (Some ob)
      then have "b < length (objs s)" by (simp add: deref_def split: if_splits)
      from assms(1) [OF ba this] obtain vs where "occurrences n s b = Inr vs" by blast
      with VRef Some ws show ?thesis by simp
    qed
  qed (use ws in simp_all)
qed

lemma occurrences_returns:
  assumes "children_older s"
  shows "a < length (objs s) \<Longrightarrow> a < n \<Longrightarrow> \<exists>vs. occurrences n s a = Inr vs"
proof (induction a arbitrary: n rule: less_induct)
  case (less a)
  from less.prems(2) obtain n' where n: "n = Suc n'" and an: "a \<le> n'"
    by (cases n) auto
  let ?ob = "objs s ! a"
  have d: "deref s a = Some ?ob" using less.prems(1) by (simp add: deref_def)
  have sub: "\<And>b. b < a \<Longrightarrow> b < length (objs s) \<Longrightarrow> \<exists>vs. occurrences n' s b = Inr vs"
    using less.IH an by simp
  from assms less.prems(1)
  have c1: "\<forall>b. VRef b \<in> set (flatten (VDict (dict ?ob))) \<longrightarrow> b < a"
    and c2: "klass ?ob = ExpressionCallExpression \<Longrightarrow>
           (\<exists>e < a. getfield ?ob ''expression'' = VRef e) \<and>
           (\<forall>b. VRef b \<in> set (flatten (getfield ?ob ''args'') @ flatten (getfield ?ob ''kwargs''))
              \<longrightarrow> b < a)"
    unfolding children_older_def by blast+
  show ?case
  proof (cases "is_VarExpression_cls (klass ?ob)")
    case True
    with d n show ?thesis by simp
  next
    case nv: False
    show ?thesis
    proof (cases "klass ?ob = ExpressionCallExpression")
      case True
      from c2 [OF True] obtain e where e: "e < a" "getfield ?ob ''expression'' = VRef e"
        and rest: "\<forall>b. VRef b \<in> set (flatten (getfield ?ob ''args'') @ flatten (getfield ?ob ''kwargs''))
              \<longrightarrow> b < a" by blast
      from e less.prems(1) have "e < length (objs s)" by simp
      from sub [OF e(1) this] obtain vs where vs: "occurrences n' s e = Inr vs" by blast
      from occurrences_aux_returns [OF sub rest] obtain ws
        where "occurrences_aux n' s (flatten (getfield ?ob ''args'') @ flatten (getfield ?ob ''kwargs'')) = Inr ws"
        by blast
      with d n nv True e vs show ?thesis by simp
    next
      case False
      from occurrences_aux_returns [OF sub c1] obtain ws
        where "occurrences_aux n' s (flatten (VDict (dict ?ob))) = Inr ws" by blast
      with d n nv False show ?thesis by simp
    qed
  qed
qed


lemma same_identity_sum_eq:
  "same_identity_sum =
     (\<lparr>objs =
        [\<lparr>klass = Int_cls,
          dict = [(''_name'', VStr ''x''), (''var_id'', VInt 0), (''_low'', VInt 0),
                  (''_high'', VInt 1), (''_dist'', VExt ExtInstance ''scipy.stats.randint'')]\<rparr>,
         \<lparr>klass = Int_cls,
          dict = [(''_name'', VStr ''x''), (''var_id'', VInt 1), (''_low'', VInt 0),
                  (''_high'', VInt 5), (''_dist'', VExt ExtInstance ''scipy.stats.randint'')]\<rparr>,
         \<lparr>klass = BinaryExpression,
          dict = [(''left'', VRef 0), (''right'', VRef 1), (''operator'', VStr ''+'')]\<rparr>],
       var_counter = 2\<rparr>, 2)"
  by (simp add: same_identity_sum_def new_Int_def alloc_def empty_store_def VarExpression_fields_def
      Expression_add_def new_BinaryExpression_def BIN_OPS_ATTR_2_SYNTAX_def BIN_OPS_SYNTAX_2_ATTR_def)

lemma same_identity_sum_children_older: "children_older (fst same_identity_sum)"
  unfolding same_identity_sum_eq
  by (auto simp: children_older_def sorted_items_def less_Suc_eq numeral_3_eq_3)

lemma same_identity_sum_occurrences: "occurrences 3 (fst same_identity_sum) 2 = Inr [0, 1]"
  unfolding same_identity_sum_eq
  by (simp add: numeral_3_eq_3 deref_def is_VarExpression_cls_def sorted_items_def)

text \<open>
  Claim C5, as stated, fails on the code. In \<^verbatim>\<open>a + b\<close> with two distinct variables of the
  same identity \<^verbatim>\<open>"x"\<close>, the walk meets \<^verbatim>\<open>a\<close> (the left operand, at address 0) first and
  \<^verbatim>\<open>b\<close> (at address 1) second, and \<^verbatim>\<open>choices()\<close> keeps \<^verbatim>\<open>b\<close>: \<^verbatim>\<open>memo[o.id] = o\<close> overwrites.
\<close>

theorem choices_first_occurrence_counterexample:
  "getfield (objs (fst same_identity_sum) ! 2) ''left'' = VRef 0
   \<and> getfield (objs (fst same_identity_sum) ! 2) ''right'' = VRef 1
   \<and> id_of (objs (fst same_identity_sum) ! 0) = VStr ''x''
   \<and> id_of (objs (fst same_identity_sum) ! 1) = VStr ''x''
   \<and> (case choices 2 (fst same_identity_sum) 2 of Inl e \<Rightarrow> None | Inr m \<Rightarrow> m (VStr ''x'')) = Some 1"
  unfolding same_identity_sum_eq
  by (simp add: numeral_2_eq_2 getfield_def id_of_def deref_def is_VarExpression_cls_def
      sorted_items_def)

text \<open>
  Claim C5, amended. \<^verbatim>\<open>choices()\<close> fails exactly when the walk fails, and otherwise returns
  the mapping from identity to variable whose keys are the identities of the variables met
  by the walk (variables are recorded and not descended into) and which, for each identity,
  keeps the last variable of that identity in traversal order. On a store whose objects
  refer to older objects only, it returns for every node, given a recursion bound above the
  node's address.
\<close>

theorem choices_keeps_last_occurrence:
  "choices n s self = map_sum id (last_wins s) (occurrences n s self)
   \<and> (\<forall>m. choices n s self = Inr m \<longrightarrow>
        (\<exists>vs. occurrences n s self = Inr vs \<and> all_variables s vs \<and> dom m = ident s ` set vs
           \<and> (\<forall>k v. m k = Some v \<longrightarrow>
                 (\<exists>pre post. vs = pre @ v # post \<and> ident s v = k \<and> k \<notin> ident s ` set post))))
   \<and> (children_older s \<and> self < length (objs s) \<and> self < n \<longrightarrow> (\<exists>m. choices n s self = Inr m))"
proof (intro conjI allI impI)
  show eq: "choices n s self = map_sum id (last_wins s) (occurrences n s self)"
    by (rule choices_occurrences)
  {
    fix m
    assume m: "choices n s self = Inr m"
    with eq obtain vs where vs: "occurrences n s self = Inr vs" and mv: "m = last_wins s vs"
      by (cases "occurrences n s self") auto
    have "all_variables s vs" using occurrences_are_variables(1) [OF vs] .
    moreover have "dom m = ident s ` set vs" by (simp add: mv dom_last_wins)
    moreover have "\<forall>k v. m k = Some v \<longrightarrow>
        (\<exists>pre post. vs = pre @ v # post \<and> ident s v = k \<and> k \<notin> ident s ` set post)"
      using last_wins_Some [of s vs] mv by blast
    ultimately show "\<exists>vs. occurrences n s self = Inr vs \<and> all_variables s vs
        \<and> dom m = ident s ` set vs
        \<and> (\<forall>k v. m k = Some v \<longrightarrow>
             (\<exists>pre post. vs = pre @ v # post \<and> ident s v = k \<and> k \<notin> ident s ` set post))"
      using vs by blast
  }
  {
    assume "children_older s \<and> self < length (objs s) \<and> self < n"
    then obtain vs where "occurrences n s self = Inr vs"
      using occurrences_returns by blast
    with eq show "\<exists>m. choices n s self = Inr m" by simp
  }
qed

theorem choices_keeps_last_occurrence_witness:
  "children_older (fst same_identity_sum)
   \<and> (\<exists>m. choices 3 (fst same_identity_sum) 2 = Inr m \<and> m (VStr ''x'') = Some 1
          \<and> dom m = {VStr ''x''})"
proof -
  let ?s = "fst same_identity_sum"
  note t = choices_keeps_last_occurrence [of 3 ?s 2]
  have len: "2 < length (objs ?s)" by (simp add: same_identity_sum_eq)
  from t same_identity_sum_children_older len obtain m where m: "choices 3 ?s 2 = Inr m"
    by auto
  have idents: "ident ?s 0 = VStr ''x''" "ident ?s (Suc 0) = VStr ''x''"
    by (simp_all add: same_identity_sum_eq ident_def deref_def id_of_def getfield_def)
  from t m same_identity_sum_occurrences have "m = last_wins ?s [0, 1]" by simp
  then have "m (VStr ''x'') = Some 1" "dom m = {VStr ''x''}"
    by (auto simp: last_wins_def idents split: if_splits)
  with m same_identity_sum_children_older show ?thesis by blast
qed

section \<open>Equality of variables\<close>









lemma and_then_True: "and_then (s, Inr (VBool True)) f = f s"
  by (simp add: and_then_def)










section \<open>Deep clone of a graph with a shared variable\<close>

lemma shared_variable_eq:
  "shared_variable =
     (\<lparr>objs =
        [\<lparr>klass = Int_cls,
          dict = [(''_name'', VNone), (''var_id'', VInt 0), (''_low'', VInt 0),
                  (''_high'', VInt 10), (''_dist'', VExt ExtInstance ''scipy.stats.randint'')]\<rparr>,
         \<lparr>klass = BinaryExpression,
          dict = [(''left'', VRef 0), (''right'', VInt 1), (''operator'', VStr ''+'')]\<rparr>,
         \<lparr>klass = BinaryExpression,
          dict = [(''left'', VRef 1), (''right'', VRef 0), (''operator'', VStr ''*'')]\<rparr>],
       var_counter = 1\<rparr>, 2)"
  by (simp add: shared_variable_def new_Int_def alloc_def empty_store_def VarExpression_fields_def
      Expression_add_def Expression_mul_def new_BinaryExpression_def BIN_OPS_ATTR_2_SYNTAX_def
      BIN_OPS_SYNTAX_2_ATTR_def)

lemma shared_variable_clone:
  "clone 3 (fst shared_variable) (snd shared_variable) True =
     (\<lparr>objs =
        [\<lparr>klass = Int_cls,
          dict = [(''_name'', VNone), (''var_id'', VInt 0), (''_low'', VInt 0),
                  (''_high'', VInt 10), (''_dist'', VExt ExtInstance ''scipy.stats.randint'')]\<rparr>,
         \<lparr>klass = BinaryExpression,
          dict = [(''left'', VRef 0), (''right'', VInt 1), (''operator'', VStr ''+'')]\<rparr>,
         \<lparr>klass = BinaryExpression,
          dict = [(''left'', VRef 1), (''right'', VRef 0), (''operator'', VStr ''*'')]\<rparr>,
         \<lparr>klass = BinaryExpression,
          dict = [(''left'', VRef 4), (''right'', VRef 6), (''operator'', VStr ''*'')]\<rparr>,
         \<lparr>klass = BinaryExpression,
          dict = [(''left'', VRef 5), (''right'', VInt 1), (''operator'', VStr ''+'')]\<rparr>,
         \<lparr>klass = Int_cls,
          dict = [(''_name'', VNone), (''var_id'', VInt 0), (''_low'', VInt 0),
                  (''_high'', VInt 10), (''_dist'', VExt ExtInstance ''scipy.stats.randint'')]\<rparr>,
         \<lparr>klass = Int_cls,
          dict = [(''_name'', VNone), (''var_id'', VInt 0), (''_low'', VInt 0),
                  (''_high'', VInt 10), (''_dist'', VExt ExtInstance ''scipy.stats.randint'')]\<rparr>],
       var_counter = 1\<rparr>, Inr (VRef 3))"
  unfolding shared_variable_eq
  by (simp add: clone_def numeral_3_eq_3 Expression_deepcopy_def deref_def alloc_def dict_of_def)

text \<open>
  Claim C4, evaluated on the code. In \<^verbatim>\<open>(v + 1) * v\<close> the one variable \<^verbatim>\<open>v\<close> (address 0) is
  reachable as \<^verbatim>\<open>left.left\<close> and as \<^verbatim>\<open>right\<close>. In the deep clone (address 3) the site
  \<^verbatim>\<open>left.left\<close> holds one copy of \<^verbatim>\<open>v\<close> (address 5) and the site \<^verbatim>\<open>right\<close> another (address 6):
  the memo that recorded the first copy was the one private to the copy of \<^verbatim>\<open>v + 1\<close>.
\<close>

theorem deep_clone_splits_shared_variable:
  "getfield (objs (fst shared_variable) ! 1) ''left'' = VRef 0
   \<and> getfield (objs (fst shared_variable) ! 2) ''left'' = VRef 1
   \<and> getfield (objs (fst shared_variable) ! 2) ''right'' = VRef 0
   \<and> snd (clone 3 (fst shared_variable) (snd shared_variable) True) = Inr (VRef 3)
   \<and> getfield (objs (fst (clone 3 (fst shared_variable) (snd shared_variable) True)) ! 3) ''left''
       = VRef 4
   \<and> getfield (objs (fst (clone 3 (fst shared_variable) (snd shared_variable) True)) ! 4) ''left''
       = VRef 5
   \<and> getfield (objs (fst (clone 3 (fst shared_variable) (snd shared_variable) True)) ! 3) ''right''
       = VRef 6"
  unfolding shared_variable_clone
  by (simp add: shared_variable_eq getfield_def)


end
